theory Spec2Isabelle
  imports Complex_Main "HOL-Library.Log_Nat"
begin

section \<open>JavaScript values used by the dashboard engine\<close>

text \<open>
  A JavaScript number is an IEEE 754 double: NaN, an infinity, or a finite double, which is
  held as the real number it denotes (the two zeros are one value; no operation of the code
  tells them apart).  \<open>jsval\<close> adds the two non-values a series entry or a region value
  can hold.
\<close>

datatype jsnum = NaN | Num real | PosInf | NegInf

datatype jsval = Undefined | Null | Number jsnum

text \<open>The relational operators and \<open>===\<close> on numbers: every comparison with NaN is false.\<close>

fun js_lt :: "jsnum \<Rightarrow> jsnum \<Rightarrow> bool" where
  "js_lt (Num a) (Num b) = (a < b)"
| "js_lt NegInf (Num b) = True"
| "js_lt NegInf PosInf = True"
| "js_lt (Num a) PosInf = True"
| "js_lt _ _ = False"

fun js_strict_eq :: "jsnum \<Rightarrow> jsnum \<Rightarrow> bool" where
  "js_strict_eq (Num a) (Num b) = (a = b)"
| "js_strict_eq PosInf PosInf = True"
| "js_strict_eq NegInf NegInf = True"
| "js_strict_eq _ _ = False"

definition js_le :: "jsnum \<Rightarrow> jsnum \<Rightarrow> bool" where
  "js_le a b = (js_lt a b \<or> js_strict_eq a b)"

definition js_gt :: "jsnum \<Rightarrow> jsnum \<Rightarrow> bool" where
  "js_gt a b = js_lt b a"

definition js_ge :: "jsnum \<Rightarrow> jsnum \<Rightarrow> bool" where
  "js_ge a b = js_le b a"

subsection \<open>Double arithmetic\<close>

text \<open>
  Every arithmetic operation yields the double nearest to the exact result, a tie going to
  the double with the even significand, and an infinity when the rounded magnitude reaches
  \<open>2^1024\<close>.  \<open>floor_log2 a\<close> is the exponent \<open>e\<close> with \<open>2^e \<le> a < 2^(e+1)\<close> of a positive
  number; below \<open>2^-1022\<close> the doubles are spaced as at \<open>2^-1022\<close>.
\<close>

definition floor_log2 :: "real \<Rightarrow> int" where
  "floor_log2 a = (if 1 \<le> a then bitlen \<lfloor>a\<rfloor> - 1 else - bitlen (\<lceil>1 / a\<rceil> - 1))"

definition round_half_even :: "real \<Rightarrow> int" where
  "round_half_even q =
     (let f = \<lfloor>q\<rfloor>; d = q - of_int f
      in if d < 1 / 2 then f else if 1 / 2 < d then f + 1 else if even f then f else f + 1)"

definition fl :: "real \<Rightarrow> jsnum" where
  "fl x =
     (if x = 0 then Num 0
      else
        (let a = \<bar>x\<bar>;
             e = max (floor_log2 a) (- 1022);
             u = 2 powi (e - 52);
             r = of_int (round_half_even (a / u)) * u
         in if 2 ^ 1024 \<le> r then (if 0 < x then PosInf else NegInf)
            else Num (if 0 < x then r else - r)))"

definition js_neg :: "jsnum \<Rightarrow> jsnum" where
  "js_neg x = (case x of NaN \<Rightarrow> NaN | Num a \<Rightarrow> Num (- a) | PosInf \<Rightarrow> NegInf | NegInf \<Rightarrow> PosInf)"

fun js_add :: "jsnum \<Rightarrow> jsnum \<Rightarrow> jsnum" where
  "js_add (Num a) (Num b) = fl (a + b)"
| "js_add NaN y = NaN"
| "js_add x NaN = NaN"
| "js_add PosInf NegInf = NaN"
| "js_add NegInf PosInf = NaN"
| "js_add PosInf y = PosInf"
| "js_add x PosInf = PosInf"
| "js_add NegInf y = NegInf"
| "js_add x NegInf = NegInf"

definition js_sub :: "jsnum \<Rightarrow> jsnum \<Rightarrow> jsnum" where
  "js_sub x y = js_add x (js_neg y)"

fun js_sign :: "jsnum \<Rightarrow> int" where
  "js_sign NaN = 0"
| "js_sign (Num a) = (if a = 0 then 0 else if 0 < a then 1 else - 1)"
| "js_sign PosInf = 1"
| "js_sign NegInf = - 1"

fun js_mul :: "jsnum \<Rightarrow> jsnum \<Rightarrow> jsnum" where
  "js_mul (Num a) (Num b) = fl (a * b)"
| "js_mul NaN y = NaN"
| "js_mul x NaN = NaN"
| "js_mul x y =
     (if js_sign x * js_sign y = 0 then NaN
      else if 0 < js_sign x * js_sign y then PosInf else NegInf)"

text \<open>Division by the length of an array or by a positive integer constant, the divisors
  of the code; a zero divisor is \<open>+0\<close>.\<close>

fun js_div :: "jsnum \<Rightarrow> nat \<Rightarrow> jsnum" where
  "js_div NaN n = NaN"
| "js_div PosInf n = PosInf"
| "js_div NegInf n = NegInf"
| "js_div (Num a) n =
     (if n = 0 then (if a = 0 then NaN else if 0 < a then PosInf else NegInf)
      else fl (a / of_nat n))"

text \<open>\<open>Math.round\<close> gives the integer nearest to its argument, a tie going up; the code
  rounds to one decimal place with \<open>Math.round(x * 10) / 10\<close>.\<close>

fun math_round :: "jsnum \<Rightarrow> jsnum" where
  "math_round (Num x) = Num (of_int \<lfloor>x + 1 / 2\<rfloor>)"
| "math_round x = x"

definition round1 :: "jsnum \<Rightarrow> jsnum" where
  "round1 x = js_div (math_round (js_mul x (Num 10))) 10"

text \<open>The number a decimal literal of a JSON text or of the program denotes.\<close>

definition fromDecimal :: "real \<Rightarrow> jsval" where
  "fromDecimal x = Number (fl x)"

section \<open>The store (dashboardStore.js)\<close>

text \<open>The TypeScript type of a rule: \<open>operator: string; value: number; operator2?: string;
  value2?: number; color: string\<close>.  An optional field that is absent is \<open>None\<close>.\<close>

record colorRule =
  operator :: string
  ruleValue :: jsnum
  operator2 :: "string option"
  value2 :: "jsnum option"
  color :: string

text \<open>A data source (metric); its display fields \<open>name\<close> and \<open>unit\<close> are left out.\<close>

record data_source =
  ds_id :: string
  ds_field :: string
  colorRules :: "colorRule list"

text \<open>A \<open>Date\<close> is its number of milliseconds since the epoch; invalid dates are left out
  of the store.  \<open>timeRange\<close> is the object \<open>{start, end}\<close>.\<close>

record timeRange =
  tr_start :: int
  tr_end :: int

text \<open>A timestamp of a provider series, after \<open>new Date(timestamps[i])\<close>.\<close>

datatype jsdate = InvalidDate | Date int

text \<open>The provider response body: an optional \<open>hourly\<close> object with an optional \<open>time\<close>
  array and one array per field, a field being looked up among the object's own
  properties.\<close>

record hourly_data =
  hourly_time :: "jsdate list option"
  hourly_fields :: "(string \<times> jsval list) list"

record api_data =
  hourly :: "hourly_data option"

record cache_entry =
  cached_data :: api_data
  timestamp :: int

text \<open>\<open>x.toFixed(4)\<close>: the string is determined by the sign and by the integer nearest to
  \<open>|x| * 10^4\<close> (a tie going up), or it is \<open>"NaN"\<close>, \<open>"Infinity"\<close> or \<open>"-Infinity"\<close>.\<close>

datatype fixed4 = FixedNaN | Fixed bool nat | FixedInfinity bool

fun toFixed4 :: "jsnum \<Rightarrow> fixed4" where
  "toFixed4 NaN = FixedNaN"
| "toFixed4 (Num x) = Fixed (x < 0) (nat \<lfloor>\<bar>x\<bar> * 10000 + 1 / 2\<rfloor>)"
| "toFixed4 PosInf = FixedInfinity False"
| "toFixed4 NegInf = FixedInfinity True"

text \<open>The cache key \<open>`${lat.toFixed(4)}_${lon.toFixed(4)}_${dataSourceId}`\<close>.\<close>

type_synonym cache_key = "fixed4 \<times> fixed4 \<times> string"

record polygon =
  pid :: string
  coordinates :: "(real \<times> real) list"
  dataSource :: string
  data :: jsval
  pcolor :: "string option"
  lastUpdated :: "int option"
  perror :: "string option"

record store =
  currentTime :: int
  timeRange :: timeRange
  isRangeMode :: bool
  isPlaying :: bool
  polygons :: "polygon list"
  dataSources :: "data_source list"
  weatherDataCache :: "cache_key \<rightharpoonup> cache_entry"

definition setCurrentTime :: "int \<Rightarrow> store \<Rightarrow> store" where
  "setCurrentTime t st = st\<lparr>currentTime := t\<rparr>"

definition setTimeRange :: "timeRange \<Rightarrow> store \<Rightarrow> store" where
  "setTimeRange rng st = st\<lparr>timeRange := rng\<rparr>"

definition setPlaying :: "bool \<Rightarrow> store \<Rightarrow> store" where
  "setPlaying playing st = st\<lparr>isPlaying := playing\<rparr>"

subsection \<open>The weather cache\<close>

definition cacheWeatherData :: "int \<Rightarrow> cache_key \<Rightarrow> api_data \<Rightarrow> store \<Rightarrow> store" where
  "cacheWeatherData now key d st =
     st\<lparr>weatherDataCache :=
          (weatherDataCache st)(key \<mapsto> \<lparr>cached_data = d, timestamp = now\<rparr>)\<rparr>"

definition getCachedWeatherData :: "int \<Rightarrow> cache_key \<Rightarrow> store \<Rightarrow> api_data option \<times> store" where
  "getCachedWeatherData now key st =
     (case weatherDataCache st key of
        None \<Rightarrow> (None, st)
      | Some cached \<Rightarrow>
          if now - timestamp cached > 3600000
          then (None, st\<lparr>weatherDataCache := (weatherDataCache st)(key := None)\<rparr>)
          else (Some (cached_data cached), st))"

subsection \<open>Rule evaluation\<close>

definition getDataSourceById :: "store \<Rightarrow> string \<Rightarrow> data_source option" where
  "getDataSourceById st ident = find (\<lambda>ds. ds_id ds = ident) (dataSources st)"

text \<open>\<open>matchesRule\<close>: the first \<open>switch\<close> on the primary operator, then, when the primary
  clause matched, \<open>operator2\<close> is truthy (present and not the empty string) and \<open>value2\<close> is
  not \<open>undefined\<close>, the second \<open>switch\<close>, whose \<open>default\<close> leaves the result as it is.\<close>

definition matchesRule :: "jsnum \<Rightarrow> colorRule \<Rightarrow> bool" where
  "matchesRule v rule =
     (let matches =
        (if operator rule = ''='' \<or> operator rule = ''=='' then js_strict_eq v (ruleValue rule)
         else if operator rule = ''<'' then js_lt v (ruleValue rule)
         else if operator rule = ''<='' then js_le v (ruleValue rule)
         else if operator rule = ''>'' then js_gt v (ruleValue rule)
         else if operator rule = ''>='' then js_ge v (ruleValue rule)
         else False)
      in case (operator2 rule, value2 rule) of
           (Some op2, Some v2) \<Rightarrow>
             if matches \<and> op2 \<noteq> [] then
               (if op2 = ''<'' then matches \<and> js_lt v v2
                else if op2 = ''<='' then matches \<and> js_le v v2
                else if op2 = ''>'' then matches \<and> js_gt v v2
                else if op2 = ''>='' then matches \<and> js_ge v v2
                else matches)
             else matches
         | _ \<Rightarrow> matches)"

text \<open>The \<open>for ... of\<close> loop of \<open>getColorForValue\<close> over the rule list.\<close>

fun firstMatchingColor :: "jsnum \<Rightarrow> colorRule list \<Rightarrow> string" where
  "firstMatchingColor v [] = ''#666666''"
| "firstMatchingColor v (rule # rules) =
     (if matchesRule v rule then color rule else firstMatchingColor v rules)"

definition getColorForValue :: "store \<Rightarrow> string \<Rightarrow> jsval \<Rightarrow> string" where
  "getColorForValue st sourceId v =
     (case getDataSourceById st sourceId of
        None \<Rightarrow> ''#666666''
      | Some ds \<Rightarrow>
          (case v of
             Null \<Rightarrow> ''#666666''
           | Undefined \<Rightarrow> ''#666666''
           | Number n \<Rightarrow> firstMatchingColor n (colorRules ds)))"

subsection \<open>The time window and the regions\<close>

text \<open>\<open>addHours\<close> and \<open>subHours\<close> of date-fns, on a millisecond instant and a whole
  number of hours.\<close>

definition addHours :: "int \<Rightarrow> int \<Rightarrow> int" where
  "addHours date amount = date + amount * 3600000"

definition subHours :: "int \<Rightarrow> int \<Rightarrow> int" where
  "subHours date amount = addHours date (- amount)"

text \<open>\<open>getTimeWindow\<close>: the range in range mode, else the hour that starts at the
  instant.\<close>

definition getTimeWindow :: "store \<Rightarrow> timeRange" where
  "getTimeWindow st =
     (if isRangeMode st then timeRange st
      else \<lparr>tr_start = currentTime st, tr_end = addHours (currentTime st) 1\<rparr>)"

text \<open>\<open>updatePolygon\<close>: \<open>updates\<close> is the spread of the update object over a region.\<close>

definition updatePolygon :: "string \<Rightarrow> (polygon \<Rightarrow> polygon) \<Rightarrow> store \<Rightarrow> store" where
  "updatePolygon ident updates st =
     st\<lparr>polygons := map (\<lambda>p. if pid p = ident then updates p else p) (polygons st)\<rparr>"

text \<open>The three data sources the store starts with.\<close>

definition simpleRule :: "string \<Rightarrow> real \<Rightarrow> string \<Rightarrow> colorRule" where
  "simpleRule opr x c =
     \<lparr>operator = opr, ruleValue = Num x, operator2 = None, value2 = None, color = c\<rparr>"

definition compoundRule :: "string \<Rightarrow> real \<Rightarrow> string \<Rightarrow> real \<Rightarrow> string \<Rightarrow> colorRule" where
  "compoundRule opr x opr2 y c =
     \<lparr>operator = opr, ruleValue = Num x, operator2 = Some opr2, value2 = Some (Num y), color = c\<rparr>"

definition initialDataSources :: "data_source list" where
  "initialDataSources =
     [\<lparr>ds_id = ''temperature'', ds_field = ''temperature_2m'',
       colorRules =
         [simpleRule ''<'' 0 ''#1890ff'',
          compoundRule ''>='' 0 ''<'' 15 ''#52c41a'',
          compoundRule ''>='' 15 ''<'' 25 ''#faad14'',
          simpleRule ''>='' 25 ''#f5222d'']\<rparr>,
      \<lparr>ds_id = ''humidity'', ds_field = ''relativehumidity_2m'',
       colorRules =
         [simpleRule ''<'' 30 ''#f5222d'',
          compoundRule ''>='' 30 ''<'' 60 ''#faad14'',
          compoundRule ''>='' 60 ''<'' 80 ''#52c41a'',
          simpleRule ''>='' 80 ''#1890ff'']\<rparr>,
      \<lparr>ds_id = ''precipitation'', ds_field = ''precipitation'',
       colorRules =
         [simpleRule ''='' 0 ''#d9d9d9'',
          compoundRule ''>'' 0 ''<'' 1 ''#91d5ff'',
          compoundRule ''>='' 1 ''<'' 5 ''#40a9ff'',
          simpleRule ''>='' 5 ''#096dd9'']\<rparr>]"

definition initialStore :: "int \<Rightarrow> store" where
  "initialStore now =
     \<lparr>currentTime = now,
      timeRange = \<lparr>tr_start = subHours now 24, tr_end = addHours now 24\<rparr>,
      isRangeMode = False, isPlaying = False, polygons = [],
      dataSources = initialDataSources, weatherDataCache = Map.empty\<rparr>"

section \<open>The time window (useTimelineState, TimelineSlider)\<close>

text \<open>
  The other functions of date-fns the code calls: \<open>differenceInHours\<close> divides the
  difference of two instants by one hour and truncates towards zero, \<open>isAfter\<close> and
  \<open>isBefore\<close> compare the instants.
\<close>

definition differenceInHours :: "int \<Rightarrow> int \<Rightarrow> int" where
  "differenceInHours dateLeft dateRight =
     (let diff = dateLeft - dateRight
      in if 0 \<le> diff then diff div 3600000 else - ((- diff) div 3600000))"

definition isAfter :: "int \<Rightarrow> int \<Rightarrow> bool" where
  "isAfter date dateToCompare = (date > dateToCompare)"

definition isBefore :: "int \<Rightarrow> int \<Rightarrow> bool" where
  "isBefore date dateToCompare = (date < dateToCompare)"

text \<open>The horizon, computed from the clock reading \<open>now\<close> when the hook runs.\<close>

definition timelineStart :: "int \<Rightarrow> int" where
  "timelineStart now = subHours now (15 * 24)"

definition timelineEnd :: "int \<Rightarrow> int" where
  "timelineEnd now = addHours now (15 * 24)"

text \<open>\<open>useTimelineState\<close>: the horizon bounds the callbacks close over are parameters.\<close>

definition moveTimeForward :: "int \<Rightarrow> store \<Rightarrow> int \<Rightarrow> bool \<times> store" where
  "moveTimeForward tlEnd st hours =
     (if isRangeMode st then
        (let duration = differenceInHours (tr_end (timeRange st)) (tr_start (timeRange st));
             newStart = addHours (tr_start (timeRange st)) hours;
             newEnd = addHours newStart duration
         in if isAfter newEnd tlEnd then (False, setPlaying False st)
            else (True, setTimeRange \<lparr>tr_start = newStart, tr_end = newEnd\<rparr> st))
      else
        (let newTime = addHours (currentTime st) hours
         in if isAfter newTime tlEnd then (False, setPlaying False st)
            else (True, setCurrentTime newTime st)))"

definition moveTimeBackward :: "int \<Rightarrow> store \<Rightarrow> int \<Rightarrow> bool \<times> store" where
  "moveTimeBackward tlStart st hours =
     (if isRangeMode st then
        (let duration = differenceInHours (tr_end (timeRange st)) (tr_start (timeRange st));
             newStart = subHours (tr_start (timeRange st)) hours;
             newEnd = addHours newStart duration
         in if isBefore newStart tlStart then (False, st)
            else (True, setTimeRange \<lparr>tr_start = newStart, tr_end = newEnd\<rparr> st))
      else
        (let newTime = subHours (currentTime st) hours
         in if isBefore newTime tlStart then (False, st)
            else (True, setCurrentTime newTime st)))"

definition jumpToTime :: "int \<Rightarrow> int \<Rightarrow> store \<Rightarrow> int \<Rightarrow> bool \<times> store" where
  "jumpToTime tlStart tlEnd st targetTime =
     (if isBefore targetTime tlStart \<or> isAfter targetTime tlEnd then (False, st)
      else if isRangeMode st then
        (let duration = differenceInHours (tr_end (timeRange st)) (tr_start (timeRange st));
             newEnd = addHours targetTime duration
         in if isAfter newEnd tlEnd then
              (let adjustedStart = subHours tlEnd duration
               in (True, setTimeRange \<lparr>tr_start = adjustedStart, tr_end = tlEnd\<rparr> st))
            else (True, setTimeRange \<lparr>tr_start = targetTime, tr_end = newEnd\<rparr> st))
      else (True, setCurrentTime targetTime st))"

text \<open>The playback effect of \<open>useTimelineState\<close>: one tick of the interval while playing.\<close>

definition playbackTick :: "int \<Rightarrow> store \<Rightarrow> store" where
  "playbackTick tlEnd st =
     (if \<not> isPlaying st then st
      else (case moveTimeForward tlEnd st 1 of
              (canContinue, st') \<Rightarrow> if \<not> canContinue then setPlaying False st' else st'))"

text \<open>\<open>TimelineSlider\<close>: the handlers of the two step buttons.\<close>

definition stepBackward :: "store \<Rightarrow> store" where
  "stepBackward st =
     (if isRangeMode st then
        (let duration = differenceInHours (tr_end (timeRange st)) (tr_start (timeRange st));
             newStart = subHours (tr_start (timeRange st)) 1;
             newEnd = addHours newStart duration
         in setTimeRange \<lparr>tr_start = newStart, tr_end = newEnd\<rparr> st)
      else setCurrentTime (subHours (currentTime st) 1) st)"

definition stepForward :: "store \<Rightarrow> store" where
  "stepForward st =
     (if isRangeMode st then
        (let duration = differenceInHours (tr_end (timeRange st)) (tr_start (timeRange st));
             newStart = addHours (tr_start (timeRange st)) 1;
             newEnd = addHours newStart duration
         in setTimeRange \<lparr>tr_start = newStart, tr_end = newEnd\<rparr> st)
      else setCurrentTime (addHours (currentTime st) 1) st)"

text \<open>\<open>moveTimeWindow\<close> of \<open>dateUtils\<close>, which moves both ends of a window.\<close>

definition moveTimeWindow :: "timeRange \<Rightarrow> int \<Rightarrow> timeRange" where
  "moveTimeWindow currentWindow moveHours =
     \<lparr>tr_start = addHours (tr_start currentWindow) moveHours,
      tr_end = addHours (tr_end currentWindow) moveHours\<rparr>"

text \<open>The invariant of the data model: the window of the current mode lies within the
  horizon and its duration is not negative.\<close>

definition withinHorizon :: "int \<Rightarrow> int \<Rightarrow> store \<Rightarrow> bool" where
  "withinHorizon tlStart tlEnd st =
     (if isRangeMode st
      then tlStart \<le> tr_start (timeRange st) \<and> tr_start (timeRange st) \<le> tr_end (timeRange st)
           \<and> tr_end (timeRange st) \<le> tlEnd
      else tlStart \<le> currentTime st \<and> currentTime st \<le> tlEnd)"


section \<open>Fetching and aggregation (useOpenMeteo)\<close>

datatype error = DataSourceNotFound string | InvalidApiResponse | RequestFailed string

text \<open>\<open>generateMockData\<close>.  \<open>r\<close> is the double \<open>Math.random()\<close> returns, in \<open>[0, 1)\<close>;
  \<open>mockValue\<close> is \<open>Math.round((r * (max - min) + min) * 10) / 10\<close>.
  \<open>mockDataRanges[dataSourceId]\<close> is a property read of an object literal: for a name
  inherited from \<open>Object.prototype\<close> it yields a truthy value without \<open>min\<close> and \<open>max\<close>, and
  the arithmetic on \<open>undefined\<close> gives NaN.\<close>

definition mockDataRanges :: "(string \<times> real \<times> real) list" where
  "mockDataRanges =
     [(''temperature'', (- 10, 35)), (''humidity'', (30, 90)), (''precipitation'', (0, 20))]"

definition objectPrototypeKeys :: "string list" where
  "objectPrototypeKeys =
     [''constructor'', ''__proto__'', ''hasOwnProperty'', ''isPrototypeOf'',
      ''propertyIsEnumerable'', ''toLocaleString'', ''toString'', ''valueOf'',
      ''__defineGetter__'', ''__defineSetter__'', ''__lookupGetter__'', ''__lookupSetter__'']"

definition mockValue :: "real \<Rightarrow> real \<Rightarrow> real \<Rightarrow> jsnum" where
  "mockValue r mn mx = round1 (js_add (js_mul (Num r) (js_sub (Num mx) (Num mn))) (Num mn))"

definition generateMockData :: "real \<Rightarrow> string \<Rightarrow> jsnum" where
  "generateMockData r dataSourceId =
     (case map_of mockDataRanges dataSourceId of
        Some (mn, mx) \<Rightarrow> mockValue r mn mx
      | None \<Rightarrow>
          if dataSourceId \<in> set objectPrototypeKeys then NaN
          else mockValue r 0 100)"

text \<open>\<open>values[i]\<close>: \<open>undefined\<close> past the end of the array.\<close>

definition valueAt :: "jsval list \<Rightarrow> nat \<Rightarrow> jsval" where
  "valueAt vs i = (if i < length vs then vs ! i else Undefined)"

text \<open>\<open>timestamp >= timeWindow.start && timestamp <= timeWindow.end\<close>; an invalid date
  compares false.\<close>

fun inWindow :: "jsdate \<Rightarrow> timeRange \<Rightarrow> bool" where
  "inWindow InvalidDate w = False"
| "inWindow (Date t) w = (t \<ge> tr_start w \<and> t \<le> tr_end w)"

text \<open>The \<open>for\<close> loop of \<open>calculateCurrentValue\<close>: \<open>i\<close> is the index of the head of the
  rest of the timestamps, \<open>relevantValues\<close> the array built so far.\<close>

fun collectRelevant :: "timeRange \<Rightarrow> jsdate list \<Rightarrow> jsval list \<Rightarrow> nat \<Rightarrow> jsnum list \<Rightarrow> jsnum list" where
  "collectRelevant w [] vs i relevantValues = relevantValues"
| "collectRelevant w (ts # rest) vs i relevantValues =
     collectRelevant w rest vs (Suc i)
       (if inWindow ts w then
          (case valueAt vs i of
             Number x \<Rightarrow> if x \<noteq> NaN then relevantValues @ [x] else relevantValues
           | _ \<Rightarrow> relevantValues)
        else relevantValues)"

definition calculateCurrentValue :: "store \<Rightarrow> real \<Rightarrow> api_data \<Rightarrow> string \<Rightarrow> jsnum" where
  "calculateCurrentValue st r apiData dataSourceId =
     (case getDataSourceById st dataSourceId of
        None \<Rightarrow> generateMockData r dataSourceId
      | Some ds \<Rightarrow>
          (case hourly apiData of
             None \<Rightarrow> generateMockData r dataSourceId
           | Some h \<Rightarrow>
               (case (hourly_time h, map_of (hourly_fields h) (ds_field ds)) of
                  (Some timestamps, Some vs) \<Rightarrow>
                    if timestamps = [] \<or> vs = [] then generateMockData r dataSourceId
                    else
                      (let relevantValues = collectRelevant (getTimeWindow st) timestamps vs 0 []
                       in if relevantValues = [] then generateMockData r dataSourceId
                          else
                            (let average = js_div (foldl js_add (Num 0) relevantValues)
                                             (length relevantValues)
                             in round1 average))
                | _ \<Rightarrow> generateMockData r dataSourceId)))"

text \<open>\<open>buildApiUrl\<close>: the URL is represented by its query parameters; \<open>start_date\<close> and
  \<open>end_date\<close> are formatted from the clock reading \<open>today\<close>, which is kept instead.\<close>

record api_request =
  req_latitude :: fixed4
  req_longitude :: fixed4
  req_today :: int
  req_hourly :: string

definition fieldMapping :: "(string \<times> string) list" where
  "fieldMapping =
     [(''temperature_2m'', ''temperature_2m''), (''relativehumidity_2m'', ''relativehumidity_2m''),
      (''precipitation'', ''precipitation''), (''windspeed_10m'', ''windspeed_10m''),
      (''pressure_msl'', ''pressure_msl'')]"

definition buildApiUrl :: "store \<Rightarrow> int \<Rightarrow> jsnum \<Rightarrow> jsnum \<Rightarrow> string \<Rightarrow> error + api_request" where
  "buildApiUrl st today lat lon dataSourceId =
     (case getDataSourceById st dataSourceId of
        None \<Rightarrow> Inl (DataSourceNotFound dataSourceId)
      | Some ds \<Rightarrow>
          Inr \<lparr>req_latitude = toFixed4 lat, req_longitude = toFixed4 lon, req_today = today,
               req_hourly = (case map_of fieldMapping (ds_field ds) of
                               Some apiField \<Rightarrow> apiField
                             | None \<Rightarrow> ds_field ds)\<rparr>)"

text \<open>
  \<open>fetchWeatherData\<close> is asynchronous: its \<open>try\<close> block runs up to \<open>await axios.get(url)\<close>
  when it is called (\<open>fetchBegin\<close>) and goes on when the response arrives (\<open>fetchResume\<close>),
  reading the store as it is then.  A \<open>throw\<close> is \<open>Inl\<close>; the \<open>catch\<close> block is
  \<open>catchMock\<close>.  \<open>r\<close> is the random number a fallback would draw.
\<close>

datatype fetch_progress = Settled jsnum | Awaiting cache_key api_request

definition fetchBegin ::
  "store \<Rightarrow> int \<Rightarrow> real \<Rightarrow> jsnum \<Rightarrow> jsnum \<Rightarrow> string \<Rightarrow> (error + fetch_progress) \<times> store" where
  "fetchBegin st now r lat lon dataSourceId =
     (let cacheKey = (toFixed4 lat, toFixed4 lon, dataSourceId)
      in case getCachedWeatherData now cacheKey st of
           (Some cachedData, st1) \<Rightarrow>
             (Inr (Settled (calculateCurrentValue st1 r cachedData dataSourceId)), st1)
         | (None, st1) \<Rightarrow>
             (case buildApiUrl st1 now lat lon dataSourceId of
                Inl e \<Rightarrow> (Inl e, st1)
              | Inr url \<Rightarrow> (Inr (Awaiting cacheKey url), st1)))"

text \<open>The response: the request is rejected (\<open>Inl\<close>), or it carries a body, which may be
  missing.\<close>

definition fetchResume ::
  "store \<Rightarrow> int \<Rightarrow> real \<Rightarrow> cache_key \<Rightarrow> string \<Rightarrow> error + api_data option \<Rightarrow> (error + jsnum) \<times> store" where
  "fetchResume st now r cacheKey dataSourceId response =
     (case response of
        Inl e \<Rightarrow> (Inl e, st)
      | Inr None \<Rightarrow> (Inl InvalidApiResponse, st)
      | Inr (Some body) \<Rightarrow>
          (case hourly body of
             None \<Rightarrow> (Inl InvalidApiResponse, st)
           | Some h \<Rightarrow>
               (let st1 = cacheWeatherData now cacheKey body st
                in (Inr (calculateCurrentValue st1 r body dataSourceId), st1))))"

definition catchMock :: "real \<Rightarrow> string \<Rightarrow> error + jsnum \<Rightarrow> error + jsnum" where
  "catchMock r dataSourceId outcome =
     (case outcome of
        Inl e \<Rightarrow> Inr (generateMockData r dataSourceId)
      | Inr v \<Rightarrow> Inr v)"

text \<open>A whole call during which nothing else touches the store: \<open>net\<close> answers the
  request, at time \<open>now'\<close>.\<close>

definition fetchWeatherData ::
  "store \<Rightarrow> int \<Rightarrow> int \<Rightarrow> (api_request \<Rightarrow> error + api_data option) \<Rightarrow> real \<Rightarrow> jsnum \<Rightarrow> jsnum \<Rightarrow> string
     \<Rightarrow> (error + jsnum) \<times> store" where
  "fetchWeatherData st now now' net r lat lon dataSourceId =
     (case fetchBegin st now r lat lon dataSourceId of
        (Inl e, st1) \<Rightarrow> (catchMock r dataSourceId (Inl e), st1)
      | (Inr (Settled v), st1) \<Rightarrow> (catchMock r dataSourceId (Inr v), st1)
      | (Inr (Awaiting cacheKey url), st1) \<Rightarrow>
          (case fetchResume st1 now' r cacheKey dataSourceId (net url) of
             (outcome, st2) \<Rightarrow> (catchMock r dataSourceId outcome, st2)))"


section \<open>Refreshing the regions (useOpenMeteo.fetchMultiplePolygons, usePolygons)\<close>

text \<open>One entry of the array \<open>fetchMultiplePolygons\<close> resolves to:
  \<open>{polygonId, value, error}\<close>.\<close>

record fetch_result =
  polygonId :: string
  res_value :: jsnum
  res_error :: "string option"

fun message :: "error \<Rightarrow> string" where
  "message (DataSourceNotFound ident) = ''Data source '' @ ident @ '' not found''"
| "message InvalidApiResponse = ''Invalid API response format''"
| "message (RequestFailed msg) = msg"

text \<open>\<open>coordinates.reduce((sum, coord) => sum + coord[i], 0) / coordinates.length\<close>;
  \<open>0 / 0\<close> is NaN.\<close>

definition average :: "real list \<Rightarrow> jsnum" where
  "average xs = js_div (foldl js_add (Num 0) (map Num xs)) (length xs)"

text \<open>The \<open>try\<close>/\<open>catch\<close> of the callback of \<open>fetchMultiplePolygons\<close>, applied to the
  outcome of \<open>await fetchWeatherData(...)\<close>.\<close>

definition resultOf :: "string \<Rightarrow> string \<Rightarrow> real \<Rightarrow> error + jsnum \<Rightarrow> fetch_result" where
  "resultOf ident source r outcome =
     (case outcome of
        Inr v \<Rightarrow> \<lparr>polygonId = ident, res_value = v, res_error = None\<rparr>
      | Inl e \<Rightarrow>
          \<lparr>polygonId = ident, res_value = generateMockData r source, res_error = Some (message e)\<rparr>)"

text \<open>A region of a call in flight: its result is there, or its request is awaited.\<close>

datatype polygon_progress = Done fetch_result | Waiting string string cache_key api_request

definition polygonBegin :: "store \<Rightarrow> int \<Rightarrow> real \<Rightarrow> polygon \<Rightarrow> polygon_progress \<times> store" where
  "polygonBegin st now r p =
     (let avgLat = average (map fst (coordinates p));
          avgLon = average (map snd (coordinates p))
      in case fetchBegin st now r avgLat avgLon (dataSource p) of
           (Inr (Awaiting cacheKey url), st1) \<Rightarrow> (Waiting (pid p) (dataSource p) cacheKey url, st1)
         | (Inr (Settled v), st1) \<Rightarrow>
             (Done (resultOf (pid p) (dataSource p) r (catchMock r (dataSource p) (Inr v))), st1)
         | (Inl e, st1) \<Rightarrow>
             (Done (resultOf (pid p) (dataSource p) r (catchMock r (dataSource p) (Inl e))), st1))"

text \<open>\<open>polygons.map(async ...)\<close> runs every callback up to its first pending \<open>await\<close>, in
  list order.  \<open>draw\<close> gives, for a region, the random number its fallback would draw.\<close>

fun beginAll ::
  "store \<Rightarrow> int \<Rightarrow> (string \<Rightarrow> real) \<Rightarrow> polygon list \<Rightarrow> polygon_progress list \<times> store" where
  "beginAll st now draw [] = ([], st)"
| "beginAll st now draw (p # ps) =
     (case polygonBegin st now (draw (pid p)) p of
        (pp, st1) \<Rightarrow>
          (case beginAll st1 now draw ps of (pps, st2) \<Rightarrow> (pp # pps, st2)))"

text \<open>The awaited responses of one call arrive, here all at the time \<open>now\<close> and in list
  order; \<open>Promise.all\<close> then resolves to the results.\<close>

fun resumeAll ::
  "store \<Rightarrow> int \<Rightarrow> (string \<Rightarrow> real) \<Rightarrow> (api_request \<Rightarrow> error + api_data option)
     \<Rightarrow> polygon_progress list \<Rightarrow> fetch_result list \<times> store" where
  "resumeAll st now draw net [] = ([], st)"
| "resumeAll st now draw net (Done res # rest) =
     (case resumeAll st now draw net rest of (results, st1) \<Rightarrow> (res # results, st1))"
| "resumeAll st now draw net (Waiting ident source cacheKey url # rest) =
     (case fetchResume st now (draw ident) cacheKey source (net url) of
        (outcome, st1) \<Rightarrow>
          (case resumeAll st1 now draw net rest of
             (results, st2) \<Rightarrow>
               (resultOf ident source (draw ident) (catchMock (draw ident) source outcome)
                  # results, st2)))"

definition fetchMultiplePolygons ::
  "store \<Rightarrow> int \<Rightarrow> int \<Rightarrow> (string \<Rightarrow> real) \<Rightarrow> (api_request \<Rightarrow> error + api_data option)
     \<Rightarrow> polygon list \<Rightarrow> fetch_result list \<times> store" where
  "fetchMultiplePolygons st now now' draw net ps =
     (case beginAll st now draw ps of (pps, st1) \<Rightarrow> resumeAll st1 now' draw net pps)"

text \<open>\<open>refreshAllPolygonData\<close>: the call closes over the region list (\<open>snapshot\<close>); what
  it does once \<open>fetchMultiplePolygons\<close> has resolved is \<open>applyResults\<close>, the
  \<open>results.forEach\<close>.\<close>

record refresh_call =
  snapshot :: "polygon list"
  progress :: "polygon_progress list"

definition applyResult :: "polygon list \<Rightarrow> int \<Rightarrow> store \<Rightarrow> fetch_result \<Rightarrow> store" where
  "applyResult snap now st res =
     (case find (\<lambda>p. pid p = polygonId res) snap of
        None \<Rightarrow> st
      | Some polygon \<Rightarrow>
          (let c = getColorForValue st (dataSource polygon) (Number (res_value res))
           in updatePolygon (polygonId res)
                (\<lambda>p. p\<lparr>data := Number (res_value res), pcolor := Some c,
                        lastUpdated := Some now, perror := res_error res\<rparr>) st))"

definition applyResults :: "polygon list \<Rightarrow> int \<Rightarrow> store \<Rightarrow> fetch_result list \<Rightarrow> store" where
  "applyResults snap now st results = foldl (applyResult snap now) st results"

definition refreshBegin :: "store \<Rightarrow> int \<Rightarrow> (string \<Rightarrow> real) \<Rightarrow> refresh_call option \<times> store" where
  "refreshBegin st now draw =
     (if polygons st = [] then (None, st)
      else (case beginAll st now draw (polygons st) of
              (pps, st1) \<Rightarrow> (Some \<lparr>snapshot = polygons st, progress = pps\<rparr>, st1)))"

definition refreshFinish ::
  "store \<Rightarrow> int \<Rightarrow> (string \<Rightarrow> real) \<Rightarrow> (api_request \<Rightarrow> error + api_data option) \<Rightarrow> refresh_call \<Rightarrow> store" where
  "refreshFinish st now draw net call =
     (case resumeAll st now draw net (progress call) of
        (results, st1) \<Rightarrow> applyResults (snapshot call) now st1 results)"

definition refreshAllPolygonData ::
  "store \<Rightarrow> int \<Rightarrow> int \<Rightarrow> (string \<Rightarrow> real) \<Rightarrow> (api_request \<Rightarrow> error + api_data option) \<Rightarrow> store" where
  "refreshAllPolygonData st now now' draw net =
     (case refreshBegin st now draw of
        (None, st1) \<Rightarrow> st1
      | (Some call, st1) \<Rightarrow> refreshFinish st1 now' draw net call)"


subsection \<open>Two refreshes in flight\<close>

text \<open>\<open>refreshAllPolygonData\<close> is invoked, the instant is moved to \<open>t2\<close>, and it is invoked
  again; then the responses of the second call arrive, and after them those of the first.
  The result is the store after the second call, and the store after the first.\<close>

definition refreshTwice ::
  "store \<Rightarrow> int \<Rightarrow> (string \<Rightarrow> real) \<Rightarrow> (api_request \<Rightarrow> error + api_data option)
     \<Rightarrow> (store \<times> store) option" where
  "refreshTwice st t2 draw net =
     (case refreshBegin st 1000 draw of
        (None, s1) \<Rightarrow> None
      | (Some call1, s1) \<Rightarrow>
          (case refreshBegin (setCurrentTime t2 s1) 2000 draw of
             (None, s3) \<Rightarrow> None
           | (Some call2, s3) \<Rightarrow>
               (let s4 = refreshFinish s3 3000 draw net call2;
                    s5 = refreshFinish s4 4000 draw net call1
                in Some (s4, s5))))"

section \<open>The statements of the specification\<close>

subsection \<open>Rule evaluation as the specification words it\<close>

text \<open>A comparison of a value with a threshold holds when both are numbers and stand in
  the relation the operator names, in the order of the real line with the two infinities
  at its ends; equality is exact.\<close>

fun position :: "jsnum \<Rightarrow> (int \<times> real) option" where
  "position NaN = None"
| "position NegInf = Some (- 1, 0)"
| "position (Num a) = Some (0, a)"
| "position PosInf = Some (1, 0)"

definition comparison_holds :: "string \<Rightarrow> jsnum \<Rightarrow> jsnum \<Rightarrow> bool" where
  "comparison_holds opr v t =
     (case (position v, position t) of
        (Some (i, a), Some (j, b)) \<Rightarrow>
          (let below = (i < j \<or> (i = j \<and> a < b)); same = (i = j \<and> a = b)
           in ((opr = ''='' \<or> opr = ''=='') \<and> same) \<or> (opr = ''<'' \<and> below) \<or>
              (opr = ''<='' \<and> (below \<or> same)) \<or> (opr = ''>'' \<and> \<not> below \<and> \<not> same) \<or>
              (opr = ''>='' \<and> \<not> below))
      | _ \<Rightarrow> False)"

text \<open>The secondary operator of a rule, when one is present (a non-empty string).\<close>

definition secondary_operator :: "colorRule \<Rightarrow> string option" where
  "secondary_operator rule =
     (case operator2 rule of None \<Rightarrow> None | Some op2 \<Rightarrow> if op2 = [] then None else Some op2)"

text \<open>A rule matches when the primary comparison holds against the primary threshold and,
  if a secondary operator is present, the secondary comparison holds against the secondary
  threshold.\<close>

definition rule_holds :: "colorRule \<Rightarrow> jsnum \<Rightarrow> bool" where
  "rule_holds rule v =
     (comparison_holds (operator rule) v (ruleValue rule) \<and>
      (case secondary_operator rule of
         None \<Rightarrow> True
       | Some op2 \<Rightarrow>
           (case value2 rule of None \<Rightarrow> False | Some t2 \<Rightarrow> comparison_holds op2 v t2)))"


text \<open>The shape the data model gives a rule: a secondary operator, when present, is one of
  \<open><\<close>, \<open><=\<close>, \<open>>\<close>, \<open>>=\<close> and comes with a secondary threshold.\<close>

definition secondary_wellformed :: "colorRule \<Rightarrow> bool" where
  "secondary_wellformed rule =
     (case secondary_operator rule of
        None \<Rightarrow> True
      | Some op2 \<Rightarrow> op2 \<in> {''<'', ''<='', ''>'', ''>=''} \<and> value2 rule \<noteq> None)"

text \<open>The secondary clause the code evaluates: an operator among \<open><\<close>, \<open><=\<close>, \<open>>\<close>, \<open>>=\<close>
  together with a threshold.  A rule applies when its primary comparison holds and the
  comparison of its secondary clause, if it has one, holds as well.\<close>

definition secondary_clause :: "colorRule \<Rightarrow> (string \<times> jsnum) option" where
  "secondary_clause rule =
     (case (operator2 rule, value2 rule) of
        (Some op2, Some t2) \<Rightarrow>
          if op2 \<in> {''<'', ''<='', ''>'', ''>=''} then Some (op2, t2) else None
      | _ \<Rightarrow> None)"

definition rule_applies :: "colorRule \<Rightarrow> jsnum \<Rightarrow> bool" where
  "rule_applies rule v =
     (comparison_holds (operator rule) v (ruleValue rule) \<and>
      (case secondary_clause rule of
         None \<Rightarrow> True
       | Some (op2, t2) \<Rightarrow> comparison_holds op2 v t2))"


subsection \<open>Aggregation as the specification words it\<close>

text \<open>The value of a pair whose timestamp lies in the window, both ends included, and
  whose value is a number other than NaN.\<close>

definition selectedValue :: "timeRange \<Rightarrow> jsdate \<times> jsval \<Rightarrow> jsnum option" where
  "selectedValue w pair =
     (case pair of
        (Date t, Number x) \<Rightarrow>
          if x \<noteq> NaN \<and> tr_start w \<le> t \<and> t \<le> tr_end w then Some x else None
      | _ \<Rightarrow> None)"

definition selected_values :: "timeRange \<Rightarrow> jsdate list \<Rightarrow> jsval list \<Rightarrow> jsnum list" where
  "selected_values w timestamps vs = List.map_filter (selectedValue w) (zip timestamps vs)"

text \<open>The arithmetic mean of finite values rounded to one decimal place, in exact
  arithmetic.\<close>

definition mean :: "real list \<Rightarrow> real" where
  "mean xs = sum_list xs / of_nat (length xs)"

definition exact_aggregate :: "real list \<Rightarrow> real" where
  "exact_aggregate xs = of_int \<lfloor>mean xs * 10 + 1 / 2\<rfloor> / 10"

text \<open>The same in double arithmetic: the values are added from left to right, the sum is
  divided by their number, and the quotient is rounded with \<open>Math.round(x * 10) / 10\<close>.\<close>

definition double_aggregate :: "jsnum list \<Rightarrow> jsnum" where
  "double_aggregate xs = round1 (js_div (foldl js_add (Num 0) xs) (length xs))"

subsection \<open>Example data\<close>

definition exampleKey :: cache_key where
  "exampleKey = (Fixed False 525200, Fixed False 134100, ''temperature'')"

definition exampleSeries :: api_data where
  "exampleSeries =
     \<lparr>hourly = Some \<lparr>hourly_time = Some [Date 0, Date 3600000, Date 7200000],
                      hourly_fields = [(''temperature_2m'',
                         [Number (Num 10), Number (Num 20), Number (Num 30)])]\<rparr>\<rparr>"

definition ninetyMinuteRange :: store where
  "ninetyMinuteRange =
     (initialStore 0)\<lparr>isRangeMode := True, timeRange := \<lparr>tr_start = 0, tr_end = 5400000\<rparr>\<rparr>"

definition atForwardHorizon :: store where
  "atForwardHorizon = (initialStore 0)\<lparr>currentTime := timelineEnd 0\<rparr>"

definition threeHourRange :: store where
  "threeHourRange =
     (initialStore 0)\<lparr>isRangeMode := True, timeRange := \<lparr>tr_start = 0, tr_end = 7200000\<rparr>\<rparr>"

definition examplePolygon :: polygon where
  "examplePolygon =
     \<lparr>pid = ''p1'', coordinates = [(52, 13), (52, 14), (53, 14), (53, 13)],
      dataSource = ''temperature'', data = Null, pcolor = None, lastUpdated = None,
      perror = None\<rparr>"

definition failingNet :: "api_request \<Rightarrow> error + api_data option" where
  "failingNet url = Inl (RequestFailed ''timeout of 10000ms exceeded'')"

definition answeringNet :: "api_data \<Rightarrow> api_request \<Rightarrow> error + api_data option" where
  "answeringNet body url = Inr (Some body)"

text \<open>Four precipitation readings, 0.0, 0.4, 1.5 and 0.3, as the doubles their decimal
  literals denote.\<close>

definition tieSeries :: api_data where
  "tieSeries =
     \<lparr>hourly = Some \<lparr>hourly_time = Some [Date 0, Date 1800000, Date 3600000, Date 7200000],
                      hourly_fields = [(''precipitation'',
                         [fromDecimal 0, fromDecimal (2 / 5), fromDecimal (3 / 2),
                          fromDecimal (3 / 10)])]\<rparr>\<rparr>"


definition mildSeries :: api_data where
  "mildSeries =
     \<lparr>hourly = Some \<lparr>hourly_time = Some [Date 0, Date 3600000],
                      hourly_fields = [(''temperature_2m'', [Number (Num 10), Number (Num 15)])]\<rparr>\<rparr>"

definition onePolygonStore :: store where
  "onePolygonStore = (initialStore 0)\<lparr>polygons := [examplePolygon]\<rparr>"

definition regionA :: polygon where
  "regionA =
     \<lparr>pid = ''A'', coordinates = [(0, 0), (0, 2), (2, 2), (2, 0)],
      dataSource = ''temperature'', data = Null, pcolor = None, lastUpdated = None,
      perror = None\<rparr>"

definition regionB :: polygon where
  "regionB =
     \<lparr>pid = ''B'', coordinates = [(10, 10), (10, 12), (12, 12), (12, 10)],
      dataSource = ''temperature'', data = Null, pcolor = None, lastUpdated = None,
      perror = None\<rparr>"

definition twoRegionStore :: store where
  "twoRegionStore =
     (initialStore 0)
       \<lparr>polygons := [regionA, regionB],
        weatherDataCache :=
          [(Fixed False 10000, Fixed False 10000, ''temperature'')
             \<mapsto> \<lparr>cached_data = exampleSeries, timestamp = 0\<rparr>]\<rparr>"

definition refreshedStore :: store where
  "refreshedStore =
     (initialStore 0)\<lparr>polygons := [examplePolygon\<lparr>data := Number (Num 25)\<rparr>]\<rparr>"

definition staleCall :: refresh_call where
  "staleCall =
     \<lparr>snapshot = [examplePolygon],
      progress = [Done \<lparr>polygonId = ''p1'', res_value = Num 15, res_error = None\<rparr>]\<rparr>"

section \<open>Double arithmetic\<close>

text \<open>\<open>floor_log2\<close> is the binary exponent of a positive number.\<close>

lemma floor_log2_bounds:
  assumes "0 < a"
  shows "2 powi (floor_log2 a) \<le> a \<and> a < 2 powi (floor_log2 a + 1)"
proof (cases "1 \<le> a")
  case True
  let ?n = "\<lfloor>a\<rfloor>"
  from True have n: "0 < ?n" by simp
  from bitlen_bounds[OF n] have lo: "2 ^ nat (bitlen ?n - 1) \<le> ?n" and hi: "?n < 2 ^ nat (bitlen ?n)"
    by simp_all
  from n have b: "1 \<le> bitlen ?n" by (auto simp: bitlen_alt_def)
  have "(2::real) ^ nat (bitlen ?n - 1) \<le> of_int ?n"
    using lo by (metis of_int_le_iff of_int_numeral of_int_power)
  also have "\<dots> \<le> a" by simp
  finally have 1: "(2::real) ^ nat (bitlen ?n - 1) \<le> a" .
  from hi have "?n + 1 \<le> 2 ^ nat (bitlen ?n)" by simp
  then have "of_int (?n + 1) \<le> (2::real) ^ nat (bitlen ?n)"
    by (metis of_int_le_iff of_int_numeral of_int_power)
  moreover have "a < of_int (?n + 1)" by linarith
  ultimately have 2: "a < (2::real) ^ nat (bitlen ?n)" by linarith
  from b have e1: "2 powi (bitlen ?n - 1) = (2::real) ^ nat (bitlen ?n - 1)"
    by (simp add: power_int_def)
  from b have e2: "2 powi (bitlen ?n - 1 + 1) = (2::real) ^ nat (bitlen ?n)"
    by (simp add: power_int_def)
  from True 1 2 e1 e2 show ?thesis by (simp add: floor_log2_def)
next
  case False
  let ?c = "\<lceil>1 / a\<rceil>"
  let ?k = "bitlen (?c - 1)"
  from False assms have inv: "1 < 1 / a" by simp
  then have c: "0 < ?c - 1" by linarith
  from bitlen_bounds[OF c] have lo: "2 ^ nat (?k - 1) \<le> ?c - 1" and hi: "?c - 1 < 2 ^ nat ?k"
    by simp_all
  from c have k: "1 \<le> ?k" by (auto simp: bitlen_alt_def)
  from hi have "?c \<le> 2 ^ nat ?k" by simp
  then have "of_int ?c \<le> (2::real) ^ nat ?k"
    by (metis of_int_le_iff of_int_numeral of_int_power)
  moreover have "1 / a \<le> of_int ?c" by simp
  ultimately have "1 / a \<le> (2::real) ^ nat ?k" by linarith
  with assms have 1: "1 / 2 ^ nat ?k \<le> a"
    by (simp add: field_simps)
  have "(2::real) ^ nat (?k - 1) \<le> of_int (?c - 1)"
    using lo by (metis of_int_le_iff of_int_numeral of_int_power)
  moreover have "of_int (?c - 1) < 1 / a" by linarith
  ultimately have "(2::real) ^ nat (?k - 1) < 1 / a" by linarith
  with assms have 2: "a < 1 / 2 ^ nat (?k - 1)"
    by (simp add: field_simps)
  from k have e1: "2 powi (- ?k) = 1 / (2::real) ^ nat ?k"
    by (simp add: power_int_def field_simps)
  from k have e2: "2 powi (- ?k + 1) = 1 / (2::real) ^ nat (?k - 1)"
    by (simp add: power_int_def field_simps nat_diff_distrib)
  from False 1 2 e1 e2 show ?thesis by (simp add: floor_log2_def)
qed

lemma floor_log2_unique:
  assumes "2 powi e \<le> a" and "a < 2 powi (e + 1)"
  shows "floor_log2 a = e"
proof -
  have pos: "0 < a" using assms(1) zero_less_power_int[of "2::real" e] by linarith
  from floor_log2_bounds[OF pos] have lo: "2 powi (floor_log2 a) \<le> a"
    and hi: "a < 2 powi (floor_log2 a + 1)" by simp_all
  have "\<not> e < floor_log2 a"
  proof
    assume "e < floor_log2 a"
    then have "e + 1 \<le> floor_log2 a" by simp
    then have "(2::real) powi (e + 1) \<le> 2 powi (floor_log2 a)"
      by (intro power_int_increasing) simp_all
    with lo assms(2) show False by linarith
  qed
  moreover have "\<not> floor_log2 a < e"
  proof
    assume "floor_log2 a < e"
    then have "floor_log2 a + 1 \<le> e" by simp
    then have "(2::real) powi (floor_log2 a + 1) \<le> 2 powi e"
      by (intro power_int_increasing) simp_all
    with hi assms(1) show False by linarith
  qed
  ultimately show ?thesis by linarith
qed


lemma round_half_even_of_int: "round_half_even (of_int k) = k"
  by (simp add: round_half_even_def)

lemma round_half_even_le: "round_half_even q \<le> \<lfloor>q\<rfloor> + 1"
  by (simp add: round_half_even_def Let_def)

lemma fl_normal:
  assumes lo: "2 powi e \<le> \<bar>x\<bar>" and hi: "\<bar>x\<bar> < 2 powi (e + 1)"
    and e: "- 1022 \<le> e" "e < 1023"
  shows "fl x = Num ((if 0 < x then 1 else - 1)
                 * (of_int (round_half_even (\<bar>x\<bar> / 2 powi (e - 52))) * 2 powi (e - 52)))"
proof -
  let ?u = "(2::real) powi (e - 52)"
  let ?m = "round_half_even (\<bar>x\<bar> / ?u)"
  have pos: "0 < \<bar>x\<bar>" using lo zero_less_power_int[of "2::real" e] by linarith
  then have nz: "x \<noteq> 0" by simp
  have fe: "floor_log2 \<bar>x\<bar> = e" by (rule floor_log2_unique[OF lo hi])
  have u: "0 < ?u" by simp
  have split: "(2::real) powi (e + 1) = 2 ^ 53 * ?u"
  proof -
    have "e + 1 = 53 + (e - 52)" by simp
    then have "(2::real) powi (e + 1) = 2 powi (53 + (e - 52))" by (rule arg_cong)
    also have "\<dots> = 2 powi 53 * ?u" by (subst power_int_add) simp_all
    finally show ?thesis by simp
  qed
  have "\<bar>x\<bar> / ?u < 2 ^ 53" using hi u by (simp add: split pos_divide_less_eq)
  then have "\<lfloor>\<bar>x\<bar> / ?u\<rfloor> < 2 ^ 53" by (simp add: floor_less_iff)
  with round_half_even_le[of "\<bar>x\<bar> / ?u"] have "?m \<le> 2 ^ 53" by linarith
  then have "of_int ?m \<le> (2::real) ^ 53"
    by (metis of_int_le_iff of_int_numeral of_int_power)
  then have "of_int ?m * ?u \<le> 2 ^ 53 * ?u" using u by simp
  also have "\<dots> = 2 powi (e + 1)" by (simp add: split)
  also have "\<dots> \<le> 2 powi 1023" using e by (intro power_int_increasing) simp_all
  also have "\<dots> < (2::real) ^ 1024" by simp
  finally have small: "\<not> 2 ^ 1024 \<le> of_int ?m * ?u" by simp
  from e have mx: "max e (- 1022) = e" by simp
  show ?thesis
    unfolding fl_def Let_def fe mx using nz small by simp
qed

lemma fl_exact:
  assumes lo: "2 powi e \<le> \<bar>x\<bar>" and hi: "\<bar>x\<bar> < 2 powi (e + 1)"
    and e: "- 1022 \<le> e" "e < 1023"
    and m: "\<bar>x\<bar> / 2 powi (e - 52) = of_int m"
  shows "fl x = Num x"
proof -
  have "of_int m * 2 powi (e - 52) = \<bar>x\<bar>"
    using m by (simp add: field_simps)
  then show ?thesis
    unfolding fl_normal[OF lo hi e] m round_half_even_of_int by (simp add: abs_if)
qed

lemma fl_dyadic:
  assumes n: "n \<noteq> 0" "\<bar>n\<bar> < 2 ^ 53" and k: "k \<le> 1000"
  shows "fl (of_int n / 2 ^ k) = Num (of_int n / 2 ^ k)"
proof -
  let ?x = "of_int n / (2::real) ^ k"
  let ?e = "floor_log2 \<bar>?x\<bar>"
  have ax: "\<bar>?x\<bar> = of_int \<bar>n\<bar> / 2 ^ k" by simp
  have pos: "0 < \<bar>?x\<bar>" using n(1) by simp
  from floor_log2_bounds[OF pos] have lo: "2 powi ?e \<le> \<bar>?x\<bar>" and hi: "\<bar>?x\<bar> < 2 powi (?e + 1)"
    by simp_all
  have "of_int \<bar>n\<bar> < (2::real) ^ 53"
    using n(2) by (metis of_int_less_iff of_int_numeral of_int_power)
  then have "\<bar>?x\<bar> < 2 ^ 53 / 2 ^ k" unfolding ax by (simp add: divide_strict_right_mono)
  also have "\<dots> = 2 powi (53 - int k)"
    by (simp add: power_int_diff)
  finally have "2 powi ?e < (2::real) powi (53 - int k)" using lo by linarith
  then have up: "?e < 53 - int k"
    by (smt (verit) power_int_increasing)
  have "1 \<le> \<bar>n\<bar>" using n(1) by simp
  then have "(1::real) \<le> of_int \<bar>n\<bar>" by (metis of_int_1 of_int_le_iff)
  then have "1 / 2 ^ k \<le> \<bar>?x\<bar>" unfolding ax by (simp add: divide_right_mono)
  moreover have "1 / 2 ^ k = (2::real) powi (- int k)"
    by (simp add: power_int_minus field_simps)
  ultimately have "(2::real) powi (- int k) < 2 powi (?e + 1)" using hi by linarith
  then have down: "- int k < ?e + 1"
    by (smt (verit) power_int_increasing)
  have e: "- 1022 \<le> ?e" "?e < 1023" using up down k by linarith+
  let ?j = "nat (52 - ?e - int k)"
  have j: "int ?j = 52 - ?e - int k" using up by simp
  define u where "u = (2::real) powi (?e - 52)"
  define v where "v = (2::real) powi (52 - ?e - int k)"
  have "v * u = 2 powi ((52 - ?e - int k) + (?e - 52))"
    unfolding u_def v_def by (subst power_int_add) simp_all
  also have "\<dots> = 2 powi (- int k)" by simp
  also have "\<dots> = 1 / 2 ^ k" by (simp add: power_int_minus field_simps)
  finally have uv: "v * u = 1 / 2 ^ k" .
  have upos: "0 < u" by (simp add: u_def)
  from uv upos have inv: "1 / (2 ^ k * u) = v" by (simp add: field_simps)
  have "of_int \<bar>n\<bar> / 2 ^ k / u = of_int \<bar>n\<bar> * (1 / (2 ^ k * u))"
    by simp
  then have "of_int \<bar>n\<bar> / 2 ^ k / u = of_int \<bar>n\<bar> * v"
    unfolding inv .
  then have "\<bar>?x\<bar> / 2 powi (?e - 52) = of_int \<bar>n\<bar> * 2 powi (52 - ?e - int k)"
    unfolding ax u_def v_def .
  also have "\<dots> = of_int \<bar>n\<bar> * 2 ^ ?j"
    by (metis j power_int_of_nat)
  also have "\<dots> = of_int (\<bar>n\<bar> * 2 ^ ?j)" by simp
  finally have m: "\<bar>?x\<bar> / 2 powi (?e - 52) = of_int (\<bar>n\<bar> * 2 ^ ?j)" .
  show ?thesis by (rule fl_exact[OF lo hi e m])
qed

lemma fl_numeral: "numeral w < (2::int) ^ 53 \<Longrightarrow> fl (numeral w) = Num (numeral w)"
  using fl_dyadic[of "numeral w" 0] by simp

lemma fl_numeral_half:
  "numeral w < (2::int) ^ 53 \<Longrightarrow> fl (numeral w / 2) = Num (numeral w / 2)"
  using fl_dyadic[of "numeral w" 1] by simp

lemma fl_one: "fl 1 = Num 1"
  using fl_dyadic[of 1 0] by simp

lemma fl_zero: "fl 0 = Num 0"
  by (simp add: fl_def)

lemma fl_neg_numeral: "numeral w < (2::int) ^ 53 \<Longrightarrow> fl (- numeral w) = Num (- numeral w)"
  using fl_dyadic[of "- numeral w" 0] by simp

lemmas fl_small = fl_zero fl_one fl_numeral fl_numeral_half fl_neg_numeral

text \<open>\<open>Math.round(x * 10) / 10\<close> yields NaN, an infinity, or the double nearest to a number
  with one decimal place.\<close>

lemma js_div_ten: "js_div (Num a) 10 = fl (a / 10)"
  by simp

lemma round1_Num:
  "js_mul x (Num 10) = Num p \<Longrightarrow> round1 x = fl (of_int \<lfloor>p + 1 / 2\<rfloor> / 10)"
  unfolding round1_def by (simp only: math_round.simps js_div_ten)

lemma round1_other:
  "js_mul x (Num 10) = NaN \<Longrightarrow> round1 x = NaN"
  "js_mul x (Num 10) = PosInf \<Longrightarrow> round1 x = PosInf"
  "js_mul x (Num 10) = NegInf \<Longrightarrow> round1 x = NegInf"
  unfolding round1_def by simp_all

lemma round1_shape:
  "round1 x = NaN \<or> round1 x = PosInf \<or> round1 x = NegInf
   \<or> (\<exists>k::int. round1 x = fl (of_int k / 10))"
proof (cases "js_mul x (Num 10)")
  case NaN
  from round1_other(1)[OF this] show ?thesis by (rule disjI1)
next
  case (Num p)
  from round1_Num[OF this] show ?thesis by (intro disjI2 exI[of _ "\<lfloor>p + 1 / 2\<rfloor>"])
next
  case PosInf
  from round1_other(2)[OF this] show ?thesis by (intro disjI2 disjI1)
next
  case NegInf
  from round1_other(3)[OF this] show ?thesis by (intro disjI2 disjI1)
qed

lemma round1_examples:
  "round1 (Num 15) = Num 15" "round1 (Num 20) = Num 20" "round1 (Num 25) = Num 25"
  "round1 (Num 50) = Num 50" "round1 (Num (25 / 2)) = Num (25 / 2)"
  by (simp_all add: round1_def fl_small)

section \<open>Colour rules\<close>

lemma js_cmp_holds:
  "js_strict_eq v t = comparison_holds ''='' v t"
  "comparison_holds ''=='' v t = comparison_holds ''='' v t"
  "js_lt v t = comparison_holds ''<'' v t"
  "js_le v t = comparison_holds ''<='' v t"
  "js_gt v t = comparison_holds ''>'' v t"
  "js_ge v t = comparison_holds ''>='' v t"
  by (cases v; cases t; simp add: comparison_holds_def js_le_def js_gt_def js_ge_def; linarith?)+

lemma comparison_holds_unknown:
  "opr \<notin> {''='', ''=='', ''<'', ''<='', ''>'', ''>=''} \<Longrightarrow> \<not> comparison_holds opr v t"
  by (cases v; cases t; simp add: comparison_holds_def)

lemma primary_switch:
  "(if operator rule = ''='' \<or> operator rule = ''=='' then js_strict_eq v (ruleValue rule)
    else if operator rule = ''<'' then js_lt v (ruleValue rule)
    else if operator rule = ''<='' then js_le v (ruleValue rule)
    else if operator rule = ''>'' then js_gt v (ruleValue rule)
    else if operator rule = ''>='' then js_ge v (ruleValue rule)
    else False) = comparison_holds (operator rule) v (ruleValue rule)"
  using comparison_holds_unknown[of "operator rule" v "ruleValue rule"]
  by (auto simp: js_cmp_holds)

lemma matchesRule_simple:
  "value2 rule = None \<or> operator2 rule = None \<or> operator2 rule = Some [] \<Longrightarrow>
   matchesRule v rule = comparison_holds (operator rule) v (ruleValue rule)"
  unfolding matchesRule_def primary_switch Let_def
  by (auto split: option.splits)



lemma firstMatchingColor_cases:
  "firstMatchingColor v rules = ''#666666'' \<or>
   (\<exists>rule\<in>set rules. matchesRule v rule \<and> firstMatchingColor v rules = color rule)"
  by (induction rules) auto

text \<open>For a rule of the shape of the data model the two readings agree.\<close>

lemma rule_applies_wellformed:
  assumes "secondary_wellformed rule"
  shows "rule_applies rule v = rule_holds rule v"
  using assms
  by (auto simp: rule_applies_def rule_holds_def secondary_wellformed_def secondary_clause_def
      secondary_operator_def split: option.splits if_splits)





text \<open>
  C10.  A rule whose primary operator is none of \<open>=\<close>, \<open>==\<close>, \<open><\<close>, \<open><=\<close>, \<open>>\<close>, \<open>>=\<close>
  never matches, and evaluation goes on with the rules after it; a rule whose secondary
  threshold is undefined is evaluated as the simple rule without its secondary clause; and
  for every store, source and value \<open>getColorForValue\<close> returns a colour: the default one
  or the colour of a rule of the source that matches the value.
\<close>

theorem matchesRule_total:
  "(operator rule \<notin> {''='', ''=='', ''<'', ''<='', ''>'', ''>=''} \<longrightarrow>
      \<not> matchesRule v rule \<and> firstMatchingColor v (rule # rules) = firstMatchingColor v rules)
   \<and> (value2 rule = None \<longrightarrow>
        matchesRule v rule = matchesRule v (rule\<lparr>operator2 := None\<rparr>))
   \<and> (getColorForValue st sourceId x = ''#666666'' \<or>
        (\<exists>ds r n. getDataSourceById st sourceId = Some ds \<and> r \<in> set (colorRules ds)
            \<and> x = Number n \<and> matchesRule n r \<and> getColorForValue st sourceId x = color r))"
proof (intro conjI impI)
  assume unknown: "operator rule \<notin> {''='', ''=='', ''<'', ''<='', ''>'', ''>=''}"
  show no: "\<not> matchesRule v rule"
    using unknown by (simp add: matchesRule_def Let_def split: option.splits)
  show "firstMatchingColor v (rule # rules) = firstMatchingColor v rules"
    using no by simp
next
  assume "value2 rule = None"
  then show "matchesRule v rule = matchesRule v (rule\<lparr>operator2 := None\<rparr>)"
    by (simp add: matchesRule_simple)
next
  show "getColorForValue st sourceId x = ''#666666'' \<or>
        (\<exists>ds r n. getDataSourceById st sourceId = Some ds \<and> r \<in> set (colorRules ds)
            \<and> x = Number n \<and> matchesRule n r \<and> getColorForValue st sourceId x = color r)"
  proof (cases "getDataSourceById st sourceId")
    case None
    then show ?thesis by (simp add: getColorForValue_def)
  next
    case (Some ds)
    show ?thesis
    proof (cases x)
      case (Number n)
      with Some firstMatchingColor_cases[of n "colorRules ds"] show ?thesis
        by (auto simp: getColorForValue_def)
    qed (simp_all add: getColorForValue_def Some)
  qed
qed

theorem matchesRule_total_witness:
  "\<not> matchesRule (Num 5) \<lparr>operator = ''!='', ruleValue = Num 0, operator2 = None, value2 = None,
        color = ''#f5222d''\<rparr>
   \<and> firstMatchingColor (Num 5)
        [\<lparr>operator = ''!='', ruleValue = Num 0, operator2 = None, value2 = None, color = ''#f5222d''\<rparr>,
         simpleRule ''>='' 5 ''#096dd9''] = ''#096dd9''
   \<and> matchesRule (Num 5) \<lparr>operator = ''>='', ruleValue = Num 0, operator2 = Some ''<'',
        value2 = None, color = ''#52c41a''\<rparr>"
proof -
  let ?bad = "\<lparr>operator = ''!='', ruleValue = Num 0, operator2 = None, value2 = None,
        color = ''#f5222d''\<rparr>"
  let ?half = "\<lparr>operator = ''>='', ruleValue = Num 0, operator2 = Some ''<'',
        value2 = None, color = ''#52c41a''\<rparr>"
  have u: "operator ?bad \<notin> {''='', ''=='', ''<'', ''<='', ''>'', ''>=''}" by simp
  have n: "value2 ?half = None" by simp
  have s: "matchesRule (Num 5) (?half\<lparr>operator2 := None\<rparr>)"
    by (simp add: matchesRule_def js_ge_def js_le_def)
  have t: "firstMatchingColor (Num 5) [simpleRule ''>='' 5 ''#096dd9''] = ''#096dd9''"
    by (simp add: matchesRule_def simpleRule_def js_ge_def js_le_def)
  from matchesRule_total[of ?bad "Num 5" "[simpleRule ''>='' 5 ''#096dd9'']"] u t
  have a: "\<not> matchesRule (Num 5) ?bad"
    and b: "firstMatchingColor (Num 5) [?bad, simpleRule ''>='' 5 ''#096dd9''] = ''#096dd9''"
    by simp_all
  from matchesRule_total[of ?half "Num 5"] n s have c: "matchesRule (Num 5) ?half"
    by simp
  from a b c show ?thesis by blast
qed

section \<open>The weather cache\<close>

text \<open>
  C5.  A \<open>get\<close> right after a \<open>put\<close> returns the stored series; a \<open>get\<close> at a time no more
  than one hour after the entry was stored returns it and leaves the cache as it is; a
  \<open>get\<close> more than one hour after returns nothing and removes the key, leaving the other
  keys as they are; a \<open>put\<close> replaces whatever the key held by the series with the time
  of the \<open>put\<close>.
\<close>

theorem weatherCache_get_put:
  "fst (getCachedWeatherData now key (cacheWeatherData now key d st)) = Some d
   \<and> (weatherDataCache st key = Some c \<and> now - timestamp c \<le> 3600000 \<longrightarrow>
        getCachedWeatherData now key st = (Some (cached_data c), st))
   \<and> (weatherDataCache st key = Some c \<and> now - timestamp c > 3600000 \<longrightarrow>
        fst (getCachedWeatherData now key st) = None
        \<and> weatherDataCache (snd (getCachedWeatherData now key st)) key = None
        \<and> (\<forall>k. k \<noteq> key \<longrightarrow>
              weatherDataCache (snd (getCachedWeatherData now key st)) k = weatherDataCache st k))
   \<and> weatherDataCache (cacheWeatherData now key d st)
       = (weatherDataCache st)(key \<mapsto> \<lparr>cached_data = d, timestamp = now\<rparr>)"
  by (simp add: getCachedWeatherData_def cacheWeatherData_def)

theorem weatherCache_get_put_witness:
  "getCachedWeatherData 3600000 exampleKey (cacheWeatherData 0 exampleKey exampleSeries (initialStore 0))
     = (Some exampleSeries, cacheWeatherData 0 exampleKey exampleSeries (initialStore 0))
   \<and> fst (getCachedWeatherData 3600001 exampleKey
            (cacheWeatherData 0 exampleKey exampleSeries (initialStore 0))) = None
   \<and> weatherDataCache (snd (getCachedWeatherData 3600001 exampleKey
            (cacheWeatherData 0 exampleKey exampleSeries (initialStore 0)))) exampleKey = None"
proof -
  let ?st = "cacheWeatherData 0 exampleKey exampleSeries (initialStore 0)"
  let ?c = "\<lparr>cached_data = exampleSeries, timestamp = 0\<rparr>"
  have e: "weatherDataCache ?st exampleKey = Some ?c"
    by (simp add: cacheWeatherData_def)
  from weatherCache_get_put[where now = 3600000 and key = exampleKey and st = ?st and c = ?c] e
  have a: "getCachedWeatherData 3600000 exampleKey ?st = (Some exampleSeries, ?st)"
    by simp
  from weatherCache_get_put[where now = 3600001 and key = exampleKey and st = ?st and c = ?c] e
  have b: "fst (getCachedWeatherData 3600001 exampleKey ?st) = None
           \<and> weatherDataCache (snd (getCachedWeatherData 3600001 exampleKey ?st)) exampleKey = None"
    by simp
  from a b show ?thesis by blast
qed

section \<open>The time window\<close>

lemma differenceInHours_exact:
  "(a - b) mod 3600000 = 0 \<Longrightarrow> differenceInHours a b * 3600000 = a - b"
  unfolding differenceInHours_def Let_def
  by (auto simp: zmod_zminus1_eq_if split: if_splits)

lemma differenceInHours_nonneg:
  "b \<le> a \<Longrightarrow> 0 \<le> differenceInHours a b \<and> differenceInHours a b * 3600000 \<le> a - b
      \<and> a - b < differenceInHours a b * 3600000 + 3600000"
  unfolding differenceInHours_def Let_def
  by (auto simp: pos_imp_zdiv_nonneg_iff)

text \<open>What \<open>moveTimeForward\<close> and \<open>jumpToTime\<close> compute: the end of the new range is placed
  \<open>differenceInHours\<close> of the old range after its start.\<close>

lemma moveTimeForward_result:
  "(isRangeMode st \<longrightarrow>
      (tr_start (timeRange st) + hours * 3600000
         + differenceInHours (tr_end (timeRange st)) (tr_start (timeRange st)) * 3600000 > tlEnd \<longrightarrow>
         moveTimeForward tlEnd st hours = (False, st\<lparr>isPlaying := False\<rparr>))
      \<and> (tr_start (timeRange st) + hours * 3600000
         + differenceInHours (tr_end (timeRange st)) (tr_start (timeRange st)) * 3600000 \<le> tlEnd \<longrightarrow>
         moveTimeForward tlEnd st hours =
           (True, st\<lparr>timeRange :=
              \<lparr>tr_start = tr_start (timeRange st) + hours * 3600000,
               tr_end = tr_start (timeRange st) + hours * 3600000
                 + differenceInHours (tr_end (timeRange st)) (tr_start (timeRange st)) * 3600000\<rparr>\<rparr>))
      \<and> ((tr_end (timeRange st) - tr_start (timeRange st)) mod 3600000 = 0 \<longrightarrow>
            differenceInHours (tr_end (timeRange st)) (tr_start (timeRange st)) * 3600000
              = tr_end (timeRange st) - tr_start (timeRange st)))
   \<and> (\<not> isRangeMode st \<longrightarrow>
      (currentTime st + hours * 3600000 > tlEnd \<longrightarrow>
         moveTimeForward tlEnd st hours = (False, st\<lparr>isPlaying := False\<rparr>))
      \<and> (currentTime st + hours * 3600000 \<le> tlEnd \<longrightarrow>
         moveTimeForward tlEnd st hours =
           (True, st\<lparr>currentTime := currentTime st + hours * 3600000\<rparr>)))"
  by (simp add: moveTimeForward_def Let_def addHours_def isAfter_def setPlaying_def
      setTimeRange_def setCurrentTime_def differenceInHours_exact)

lemma jumpToTime_result:
  "(tlStart \<le> t \<and> t \<le> tlEnd \<longrightarrow>
      fst (jumpToTime tlStart tlEnd st t)
      \<and> (\<not> isRangeMode st \<longrightarrow> snd (jumpToTime tlStart tlEnd st t) = st\<lparr>currentTime := t\<rparr>)
      \<and> (isRangeMode st \<longrightarrow>
            snd (jumpToTime tlStart tlEnd st t) =
              st\<lparr>timeRange :=
                 (if t + differenceInHours (tr_end (timeRange st)) (tr_start (timeRange st)) * 3600000
                       > tlEnd
                  then \<lparr>tr_start = tlEnd
                          - differenceInHours (tr_end (timeRange st)) (tr_start (timeRange st)) * 3600000,
                        tr_end = tlEnd\<rparr>
                  else \<lparr>tr_start = t,
                        tr_end = t
                          + differenceInHours (tr_end (timeRange st)) (tr_start (timeRange st)) * 3600000\<rparr>)\<rparr>
            \<and> tr_end (timeRange (snd (jumpToTime tlStart tlEnd st t)))
                  - tr_start (timeRange (snd (jumpToTime tlStart tlEnd st t)))
                = differenceInHours (tr_end (timeRange st)) (tr_start (timeRange st)) * 3600000
            \<and> ((tr_end (timeRange st) - tr_start (timeRange st)) mod 3600000 = 0 \<longrightarrow>
                  tr_end (timeRange (snd (jumpToTime tlStart tlEnd st t)))
                    - tr_start (timeRange (snd (jumpToTime tlStart tlEnd st t)))
                  = tr_end (timeRange st) - tr_start (timeRange st)))
      \<and> ((isRangeMode st \<longrightarrow> tr_start (timeRange st) \<le> tr_end (timeRange st)) \<longrightarrow>
            tr_start (getTimeWindow (snd (jumpToTime tlStart tlEnd st t))) \<le> t
            \<and> t \<le> tr_end (getTimeWindow (snd (jumpToTime tlStart tlEnd st t)))))
   \<and> (t < tlStart \<or> tlEnd < t \<longrightarrow> jumpToTime tlStart tlEnd st t = (False, st))"
proof -
  let ?D = "differenceInHours (tr_end (timeRange st)) (tr_start (timeRange st))"
  have nonneg: "tr_start (timeRange st) \<le> tr_end (timeRange st) \<Longrightarrow> 0 \<le> ?D"
    using differenceInHours_nonneg by blast
  have exact: "(tr_end (timeRange st) - tr_start (timeRange st)) mod 3600000 = 0 \<Longrightarrow>
      ?D * 3600000 = tr_end (timeRange st) - tr_start (timeRange st)"
    by (rule differenceInHours_exact)
  show ?thesis
  proof (cases "isRangeMode st")
    case True
    with nonneg exact show ?thesis
      by (auto simp: jumpToTime_def Let_def addHours_def subHours_def isAfter_def isBefore_def
          setTimeRange_def getTimeWindow_def)
  next
    case False
    then show ?thesis
      by (auto simp: jumpToTime_def Let_def addHours_def subHours_def isAfter_def isBefore_def
          setCurrentTime_def getTimeWindow_def)
  qed
qed

text \<open>
  C6.  \<open>moveTimeForward\<close> does not preserve the duration of a range that is not a whole
  number of hours: a range of ninety minutes stepped by one hour stays within the horizon
  and is applied, and lasts sixty minutes afterwards, where \<open>moveTimeWindow\<close> of
  \<open>dateUtils\<close> moves both ends by the hour and keeps the ninety minutes.
\<close>

theorem moveTimeForward_shrinks_range:
  "tr_end (timeRange ninetyMinuteRange) + 1 * 3600000 \<le> timelineEnd 0
   \<and> moveTimeForward (timelineEnd 0) ninetyMinuteRange 1
       = (True, ninetyMinuteRange\<lparr>timeRange := \<lparr>tr_start = 3600000, tr_end = 7200000\<rparr>\<rparr>)
   \<and> tr_end (timeRange ninetyMinuteRange) - tr_start (timeRange ninetyMinuteRange) = 5400000
   \<and> moveTimeWindow (timeRange ninetyMinuteRange) 1 = \<lparr>tr_start = 3600000, tr_end = 9000000\<rparr>"
  by (simp add: moveTimeForward_def Let_def addHours_def isAfter_def setPlaying_def
      setTimeRange_def differenceInHours_def ninetyMinuteRange_def initialStore_def
      timelineEnd_def moveTimeWindow_def)

text \<open>
  C7.  \<open>jumpToTime\<close> does not preserve the duration of a range that is not a whole number
  of hours: a jump of a range of ninety minutes to a time inside the horizon succeeds and
  leaves a range of sixty minutes that starts at the target.
\<close>

theorem jumpToTime_shrinks_range:
  "timelineStart 0 \<le> 0 \<and> 0 \<le> timelineEnd 0
   \<and> jumpToTime (timelineStart 0) (timelineEnd 0) ninetyMinuteRange 0
       = (True, ninetyMinuteRange\<lparr>timeRange := \<lparr>tr_start = 0, tr_end = 3600000\<rparr>\<rparr>)
   \<and> tr_end (timeRange ninetyMinuteRange) - tr_start (timeRange ninetyMinuteRange) = 5400000"
  by (simp add: jumpToTime_def Let_def addHours_def subHours_def isAfter_def isBefore_def
      setTimeRange_def differenceInHours_def ninetyMinuteRange_def initialStore_def
      timelineEnd_def timelineStart_def)

text \<open>The stepping of \<open>useTimelineState\<close> keeps the window within the horizon.\<close>

lemma moveTimeForward_withinHorizon:
  assumes "withinHorizon tlStart tlEnd st" and "0 \<le> hours"
  shows "withinHorizon tlStart tlEnd (snd (moveTimeForward tlEnd st hours))"
proof -
  have "0 \<le> differenceInHours (tr_end (timeRange st)) (tr_start (timeRange st))"
    if "tr_start (timeRange st) \<le> tr_end (timeRange st)"
    using differenceInHours_nonneg that by blast
  with assms show ?thesis
    by (auto simp: withinHorizon_def moveTimeForward_def Let_def addHours_def isAfter_def
        setPlaying_def setTimeRange_def setCurrentTime_def split: if_splits)
qed

text \<open>
  C8.  The step button of \<open>TimelineSlider\<close> does not keep the window within the horizon:
  from the instant at the forward horizon \<open>stepForward\<close> moves one hour past it, where
  \<open>moveTimeForward\<close> of \<open>useTimelineState\<close> rejects the same step.
\<close>

theorem stepForward_leaves_horizon:
  "withinHorizon (timelineStart 0) (timelineEnd 0) atForwardHorizon
   \<and> \<not> withinHorizon (timelineStart 0) (timelineEnd 0) (stepForward atForwardHorizon)
   \<and> currentTime (stepForward atForwardHorizon) = timelineEnd 0 + 3600000
   \<and> moveTimeForward (timelineEnd 0) atForwardHorizon 1 = (False, atForwardHorizon)"
  by (simp add: withinHorizon_def stepForward_def moveTimeForward_def Let_def addHours_def
      subHours_def isAfter_def setPlaying_def setCurrentTime_def atForwardHorizon_def
      initialStore_def timelineEnd_def timelineStart_def)

section \<open>Aggregation\<close>

lemma selectedValue_step:
  "(if inWindow ts w then
      (case v of Number x \<Rightarrow> if x \<noteq> NaN then acc @ [x] else acc | _ \<Rightarrow> acc)
    else acc)
     = acc @ (case selectedValue w (ts, v) of None \<Rightarrow> [] | Some x \<Rightarrow> [x])"
  by (cases ts; cases v rule: jsval.exhaust; simp add: selectedValue_def)

lemma collectRelevant_map_filter:
  "collectRelevant w timestamps vs i acc
     = acc @ List.map_filter (selectedValue w) (zip timestamps (drop i vs))"
proof (induction timestamps arbitrary: i acc)
  case Nil
  then show ?case by (simp add: List.map_filter_simps)
next
  case (Cons ts rest)
  show ?case
  proof (cases "i < length vs")
    case True
    then have d: "drop i vs = vs ! i # drop (Suc i) vs"
      by (simp add: Cons_nth_drop_Suc)
    show ?thesis
      by (simp add: Cons.IH selectedValue_step valueAt_def True d List.map_filter_simps
          split: option.splits)
  next
    case False
    have u: "selectedValue w (ts, Undefined) = None"
      by (cases ts) (simp_all add: selectedValue_def)
    from False show ?thesis
      by (simp add: Cons.IH selectedValue_step valueAt_def u)
  qed
qed

lemma calculateCurrentValue_selected:
  assumes "getDataSourceById st dataSourceId = Some ds"
    and "hourly apiData = Some h"
    and "hourly_time h = Some timestamps"
    and "map_of (hourly_fields h) (ds_field ds) = Some vs"
  shows "calculateCurrentValue st r apiData dataSourceId =
           (if selected_values (getTimeWindow st) timestamps vs = []
            then generateMockData r dataSourceId
            else double_aggregate (selected_values (getTimeWindow st) timestamps vs))"
proof -
  have sel: "collectRelevant (getTimeWindow st) timestamps vs 0 []
       = selected_values (getTimeWindow st) timestamps vs"
    by (simp add: collectRelevant_map_filter selected_values_def)
  have empty: "timestamps = [] \<or> vs = [] \<Longrightarrow> selected_values (getTimeWindow st) timestamps vs = []"
    by (auto simp: selected_values_def List.map_filter_simps)
  show ?thesis
    using assms empty
    by (auto simp: calculateCurrentValue_def sel Let_def double_aggregate_def)
qed

text \<open>
  C3 (as the code has it).  For a series of a known data source, \<open>calculateCurrentValue\<close>
  selects the values of the pairs whose timestamp lies in the window, both ends included,
  leaving out null, undefined and NaN.  When none remains it returns the synthetic value.
  Otherwise it returns the mean rounded once, all in double arithmetic: the selected
  values added from left to right, the sum divided by their number, the quotient times
  ten rounded to the nearest integer and divided by ten.  The result is the double nearest
  to a number with one decimal place, or NaN or an infinity.  The values 10, 20, 30 inside
  the window give 20.
\<close>

theorem aggregate_double_mean:
  assumes "getDataSourceById st dataSourceId = Some ds"
    and "hourly apiData = Some h"
    and "hourly_time h = Some timestamps"
    and "map_of (hourly_fields h) (ds_field ds) = Some vs"
  shows "calculateCurrentValue st r apiData dataSourceId =
           (if selected_values (getTimeWindow st) timestamps vs = []
            then generateMockData r dataSourceId
            else double_aggregate (selected_values (getTimeWindow st) timestamps vs))
         \<and> (double_aggregate xs = NaN \<or> double_aggregate xs = PosInf
              \<or> double_aggregate xs = NegInf
              \<or> (\<exists>k::int. double_aggregate xs = fl (of_int k / 10)))"
  using calculateCurrentValue_selected[OF assms] round1_shape
  by (simp add: double_aggregate_def)

theorem aggregate_double_mean_witness:
  "calculateCurrentValue threeHourRange 0 exampleSeries ''temperature'' = Num 20"
proof -
  let ?ts = "[Date 0, Date 3600000, Date 7200000]"
  let ?vs = "[Number (Num 10), Number (Num 20), Number (Num 30)]"
  let ?h = "\<lparr>hourly_time = Some ?ts, hourly_fields = [(''temperature_2m'', ?vs)]\<rparr>"
  have h1: "getDataSourceById threeHourRange ''temperature'' = Some (hd initialDataSources)"
    by (simp add: getDataSourceById_def threeHourRange_def initialStore_def initialDataSources_def)
  have h2: "hourly exampleSeries = Some ?h"
    by (simp add: exampleSeries_def)
  have h3: "hourly_time ?h = Some ?ts"
    by simp
  have h4: "map_of (hourly_fields ?h) (ds_field (hd initialDataSources)) = Some ?vs"
    by (simp add: initialDataSources_def)
  have w: "getTimeWindow threeHourRange = \<lparr>tr_start = 0, tr_end = 7200000\<rparr>"
    by (simp add: getTimeWindow_def threeHourRange_def)
  have s: "selected_values \<lparr>tr_start = 0, tr_end = 7200000\<rparr> ?ts ?vs = [Num 10, Num 20, Num 30]"
    by (simp add: selected_values_def List.map_filter_simps selectedValue_def)
  have d: "double_aggregate [Num 10, Num 20, Num 30] = Num 20"
    by (simp add: double_aggregate_def round1_def fl_small)
  from aggregate_double_mean[OF h1 h2 h3 h4, of 0]
  show ?thesis by (simp add: w s d)
qed

text \<open>The readings 0.0, 0.4, 1.5 and 0.3 lie in the window.  Their arithmetic mean is
  0.55 and a little more, which rounds to 0.6, whether the readings are taken as the
  doubles or as the decimals; the sum in double arithmetic is a little less than 2.2, and
  the code returns 0.5.\<close>

theorem double_rounding_counterexample:
  "selected_values (getTimeWindow threeHourRange)
       [Date 0, Date 1800000, Date 3600000, Date 7200000]
       [fromDecimal 0, fromDecimal (2 / 5), fromDecimal (3 / 2), fromDecimal (3 / 10)]
     = map Num [0, 3602879701896397 / 9007199254740992, 3 / 2,
                5404319552844595 / 18014398509481984]
   \<and> calculateCurrentValue threeHourRange 0 tieSeries ''precipitation'' = Num (1 / 2)
   \<and> exact_aggregate [0, 3602879701896397 / 9007199254740992, 3 / 2,
                       5404319552844595 / 18014398509481984] = 3 / 5
   \<and> exact_aggregate [0, 2 / 5, 3 / 2, 3 / 10] = 3 / 5"
proof -
  let ?a = "3602879701896397 / 9007199254740992 :: real"
  let ?b = "5404319552844595 / 18014398509481984 :: real"
  let ?ts = "[Date 0, Date 1800000, Date 3600000, Date 7200000]"
  let ?vs = "[fromDecimal 0, fromDecimal (2 / 5), fromDecimal (3 / 2), fromDecimal (3 / 10)]"
  let ?h = "\<lparr>hourly_time = Some ?ts, hourly_fields = [(''precipitation'', ?vs)]\<rparr>"
  have fa: "fl (2 / 5) = Num ?a"
    using fl_normal[where e = "- 2" and x = "2 / 5"] by (simp add: round_half_even_def)
  have fb: "fl (3 / 10) = Num ?b"
    using fl_normal[where e = "- 2" and x = "3 / 10"] by (simp add: round_half_even_def)
  have w: "getTimeWindow threeHourRange = \<lparr>tr_start = 0, tr_end = 7200000\<rparr>"
    by (simp add: getTimeWindow_def threeHourRange_def)
  have sel: "selected_values (getTimeWindow threeHourRange) ?ts ?vs = map Num [0, ?a, 3 / 2, ?b]"
    unfolding w
    by (simp add: selected_values_def List.map_filter_simps selectedValue_def fromDecimal_def
        fl_small fa fb)
  have s1: "js_add (Num 0) (Num 0) = Num 0"
    by (simp add: fl_zero)
  have s2: "js_add (Num 0) (Num ?a) = Num ?a"
    using fl_normal[where e = "- 2" and x = "0 + ?a"] by (simp add: round_half_even_def)
  have s3: "js_add (Num ?a) (Num (3 / 2)) = Num (4278419646001971 / 2251799813685248)"
    using fl_normal[where e = 0 and x = "?a + 3 / 2"] by (simp add: round_half_even_def)
  have s4: "js_add (Num (4278419646001971 / 2251799813685248)) (Num ?b)
      = Num (4953959590107545 / 2251799813685248)"
    using fl_normal[where e = 1 and x = "4278419646001971 / 2251799813685248 + ?b"]
    by (simp add: round_half_even_def)
  have total: "foldl js_add (Num 0) (map Num [0, ?a, 3 / 2, ?b])
      = Num (4953959590107545 / 2251799813685248)"
    by (simp only: list.map foldl.simps s1 s2 s3 s4)
  have avg: "js_div (Num (4953959590107545 / 2251799813685248)) 4
      = Num (4953959590107545 / 9007199254740992)"
    using fl_normal[where e = "- 1" and x = "4953959590107545 / 2251799813685248 / 4"]
    by (simp add: round_half_even_def)
  have prod: "js_mul (Num (4953959590107545 / 9007199254740992)) (Num 10)
      = Num (6192449487634431 / 1125899906842624)"
    using fl_normal[where e = 2 and x = "4953959590107545 / 9007199254740992 * 10"]
    by (simp add: round_half_even_def)
  have rnd: "math_round (Num (6192449487634431 / 1125899906842624)) = Num 5"
    by simp
  have quot: "js_div (Num 5) 10 = Num (1 / 2)"
    using fl_dyadic[of 1 1] by simp
  have len: "length (map Num [0, ?a, 3 / 2, ?b]) = 4"
    by simp
  have agg: "double_aggregate (map Num [0, ?a, 3 / 2, ?b]) = Num (1 / 2)"
    unfolding double_aggregate_def round1_def total len avg prod rnd quot ..
  have h1: "getDataSourceById threeHourRange ''precipitation'' = Some (initialDataSources ! 2)"
    by (simp add: getDataSourceById_def threeHourRange_def initialStore_def initialDataSources_def)
  have h2: "hourly tieSeries = Some ?h"
    by (simp add: tieSeries_def)
  have h3: "hourly_time ?h = Some ?ts"
    by simp
  have h4: "map_of (hourly_fields ?h) (ds_field (initialDataSources ! 2)) = Some ?vs"
    by (simp add: initialDataSources_def)
  have code: "calculateCurrentValue threeHourRange 0 tieSeries ''precipitation'' = Num (1 / 2)"
    unfolding calculateCurrentValue_selected[OF h1 h2 h3 h4] sel agg by simp
  have exact1: "exact_aggregate [0, ?a, 3 / 2, ?b] = 3 / 5"
    by (simp add: exact_aggregate_def mean_def)
  have exact2: "exact_aggregate [0, 2 / 5, 3 / 2, 3 / 10] = 3 / 5"
    by (simp add: exact_aggregate_def mean_def)
  from sel code exact1 exact2 show ?thesis by simp
qed

section \<open>Fetching and the synthetic fallback\<close>

text \<open>\<open>fetchWeatherData\<close> never raises.\<close>

lemma getCachedWeatherData_dataSources:
  "dataSources (snd (getCachedWeatherData now key st)) = dataSources st"
  by (simp add: getCachedWeatherData_def split: option.splits)

lemma fetchWeatherData_never_throws:
  "\<exists>v. fst (fetchWeatherData st now now' net r lat lon dataSourceId) = Inr v"
  by (auto simp: fetchWeatherData_def catchMock_def split: prod.splits sum.splits fetch_progress.splits)

lemma example_centroid:
  "average (map fst (coordinates examplePolygon)) = Num (105 / 2)"
  "average (map snd (coordinates examplePolygon)) = Num (27 / 2)"
  by (simp_all add: average_def examplePolygon_def fl_small)

lemma onePolygonStore_fields:
  "weatherDataCache onePolygonStore = Map.empty"
  "dataSources onePolygonStore = initialDataSources"
  "isRangeMode onePolygonStore = False"
  "currentTime onePolygonStore = 0"
  "polygons onePolygonStore = [examplePolygon]"
  by (simp_all add: onePolygonStore_def initialStore_def)

lemma temperature_lookup:
  "dataSources st = initialDataSources \<Longrightarrow>
   getDataSourceById st ''temperature'' = Some (hd initialDataSources)"
  by (simp add: getDataSourceById_def initialDataSources_def)

lemma cacheWeatherData_reads:
  "getTimeWindow (cacheWeatherData now key d st) = getTimeWindow st"
  "getDataSourceById (cacheWeatherData now key d st) = getDataSourceById st"
  "polygons (cacheWeatherData now key d st) = polygons st"
  "dataSources (cacheWeatherData now key d st) = dataSources st"
  by (simp_all add: getDataSourceById_def getTimeWindow_def cacheWeatherData_def fun_eq_iff)

lemma calculateCurrentValue_cacheWeatherData:
  "calculateCurrentValue (cacheWeatherData now key d st) r apiData dataSourceId
     = calculateCurrentValue st r apiData dataSourceId"
  unfolding calculateCurrentValue_def cacheWeatherData_reads ..

text \<open>
  C4.  A failed fetch resolves to a synthetic value, but nothing tells it from a real one:
  for a request that times out \<open>fetchMultiplePolygons\<close> gives the entry, with no error,
  that it gives for an answered request whose mean is the same number.  The \<open>catch\<close> of
  \<open>fetchWeatherData\<close> keeps the error from the \<open>catch\<close> of \<open>fetchMultiplePolygons\<close>, which
  would record its message.
\<close>

theorem synthetic_value_not_flagged:
  "fst (fetchMultiplePolygons onePolygonStore 0 1 (\<lambda>ident. 1 / 2) failingNet [examplePolygon])
     = [\<lparr>polygonId = ''p1'', res_value = Num (25 / 2), res_error = None\<rparr>]
   \<and> fst (fetchMultiplePolygons onePolygonStore 0 1 (\<lambda>ident. 1 / 2) (answeringNet mildSeries)
           [examplePolygon])
     = [\<lparr>polygonId = ''p1'', res_value = Num (25 / 2), res_error = None\<rparr>]"
proof -
  let ?key = "(Fixed False 525000, Fixed False 135000, ''temperature'')"
  let ?url = "\<lparr>req_latitude = Fixed False 525000, req_longitude = Fixed False 135000,
             req_today = 0, req_hourly = ''temperature_2m''\<rparr>"
  have p: "pid examplePolygon = ''p1''" "dataSource examplePolygon = ''temperature''"
    by (simp_all add: examplePolygon_def)
  have ds: "getDataSourceById onePolygonStore ''temperature'' = Some (hd initialDataSources)"
    by (simp add: temperature_lookup onePolygonStore_fields)
  have f: "ds_field (hd initialDataSources) = ''temperature_2m''"
    by (simp add: initialDataSources_def)
  have url: "buildApiUrl onePolygonStore 0 (Num (105 / 2)) (Num (27 / 2)) ''temperature'' = Inr ?url"
    by (simp add: buildApiUrl_def ds f fieldMapping_def)
  have miss: "getCachedWeatherData 0 ?key onePolygonStore = (None, onePolygonStore)"
    by (simp add: getCachedWeatherData_def onePolygonStore_fields)
  have fb: "fetchBegin onePolygonStore 0 (1 / 2) (Num (105 / 2)) (Num (27 / 2)) ''temperature''
      = (Inr (Awaiting ?key ?url), onePolygonStore)"
    using url miss by (simp add: fetchBegin_def)
  have start: "polygonBegin onePolygonStore 0 (1 / 2) examplePolygon
      = (Waiting ''p1'' ''temperature'' ?key ?url, onePolygonStore)"
    by (simp add: polygonBegin_def example_centroid p fb)
  have mock: "generateMockData (1 / 2) ''temperature'' = Num (25 / 2)"
    by (simp add: generateMockData_def mockDataRanges_def mockValue_def js_sub_def js_neg_def
        round1_def fl_small)
  have w: "getTimeWindow onePolygonStore = \<lparr>tr_start = 0, tr_end = 3600000\<rparr>"
    by (simp add: getTimeWindow_def onePolygonStore_fields addHours_def)
  have calc: "calculateCurrentValue (cacheWeatherData 1 ?key mildSeries onePolygonStore)
       (1 / 2) mildSeries ''temperature'' = Num (25 / 2)"
    by (simp add: calculateCurrentValue_cacheWeatherData)
       (simp add: calculateCurrentValue_def ds f w mildSeries_def valueAt_def round1_def
        fl_small)
  have h: "hourly mildSeries \<noteq> None" by (simp add: mildSeries_def)
  have failing: "fetchResume onePolygonStore 1 (1 / 2) ?key ''temperature'' (failingNet ?url)
      = (Inl (RequestFailed ''timeout of 10000ms exceeded''), onePolygonStore)"
    by (simp add: fetchResume_def failingNet_def)
  have answering: "fetchResume onePolygonStore 1 (1 / 2) ?key ''temperature''
        (answeringNet mildSeries ?url)
      = (Inr (Num (25 / 2)), cacheWeatherData 1 ?key mildSeries onePolygonStore)"
    using h by (auto simp: fetchResume_def answeringNet_def calc)
  show ?thesis
    by (simp add: fetchMultiplePolygons_def start failing answering catchMock_def resultOf_def mock)
qed

text \<open>
  C9 (as the code has it).  A call that names an unknown data source is not reported to
  the caller: \<open>getColorForValue\<close> returns the default colour, and \<open>fetchWeatherData\<close>
  resolves to the synthetic value of the identifier, the error \<open>buildApiUrl\<close> raises being
  caught.
\<close>

theorem unknown_metric_not_reported:
  assumes "getDataSourceById st sourceId = None"
  shows "getColorForValue st sourceId v = ''#666666''
         \<and> buildApiUrl st today lat lon sourceId = Inl (DataSourceNotFound sourceId)
         \<and> fst (fetchWeatherData st now now' net r lat lon sourceId)
             = Inr (generateMockData r sourceId)"
proof -
  have same: "getDataSourceById (snd (getCachedWeatherData now key st)) sourceId = None" for key
    using assms by (simp add: getDataSourceById_def getCachedWeatherData_dataSources)
  have "fst (fetchWeatherData st now now' net r lat lon sourceId)
          = Inr (generateMockData r sourceId)"
    using same[of "(toFixed4 lat, toFixed4 lon, sourceId)"]
    by (auto simp: fetchWeatherData_def fetchBegin_def Let_def catchMock_def buildApiUrl_def
        calculateCurrentValue_def split: prod.splits option.splits sum.splits)
  with assms show ?thesis
    by (simp add: getColorForValue_def buildApiUrl_def)
qed

theorem unknown_metric_not_reported_witness:
  "getColorForValue (initialStore 0) ''windspeed'' (Number (Num 5)) = ''#666666''
   \<and> buildApiUrl (initialStore 0) 0 (Num 52) (Num 13) ''windspeed''
       = Inl (DataSourceNotFound ''windspeed'')
   \<and> fst (fetchWeatherData (initialStore 0) 0 1 failingNet (1 / 2) (Num 52) (Num 13) ''windspeed'')
       = Inr (generateMockData (1 / 2) ''windspeed'')"
proof -
  have "getDataSourceById (initialStore 0) ''windspeed'' = None"
    by (simp add: getDataSourceById_def initialStore_def initialDataSources_def)
  from unknown_metric_not_reported[OF this] show ?thesis .
qed

text \<open>For the unknown source \<open>windspeed\<close> the caller gets the default colour and the number
  50, and no error.\<close>

theorem unknown_metric_counterexample:
  "getColorForValue (initialStore 0) ''windspeed'' (Number (Num 5)) = ''#666666''
   \<and> fst (fetchWeatherData (initialStore 0) 0 1 (answeringNet exampleSeries) (1 / 2)
           (Num 52) (Num 13) ''windspeed'') = Inr (Num 50)"
  by (simp add: getColorForValue_def getDataSourceById_def initialStore_def initialDataSources_def
      fetchWeatherData_def fetchBegin_def getCachedWeatherData_def buildApiUrl_def catchMock_def
      generateMockData_def mockDataRanges_def objectPrototypeKeys_def mockValue_def js_sub_def
      js_neg_def round1_def fl_small)

section \<open>Refreshing the regions\<close>

lemma fetchResume_reads:
  "polygons (snd (fetchResume st now r key source response)) = polygons st"
  "dataSources (snd (fetchResume st now r key source response)) = dataSources st"
  by (auto simp: fetchResume_def cacheWeatherData_def Let_def split: sum.splits option.splits)

lemma resumeAll_reads:
  "polygons (snd (resumeAll st now draw net pps)) = polygons st
   \<and> dataSources (snd (resumeAll st now draw net pps)) = dataSources st"
proof (induction st now draw net pps rule: resumeAll.induct)
  case (1 st now draw net)
  then show ?case by simp
next
  case (2 st now draw net res rest)
  then show ?case by (auto split: prod.splits)
next
  case (3 st now draw net ident source cacheKey url rest)
  obtain outcome st1 where f: "fetchResume st now (draw ident) cacheKey source (net url) = (outcome, st1)"
    by (cases "fetchResume st now (draw ident) cacheKey source (net url)")
  with fetchResume_reads[of st now "draw ident" cacheKey source "net url"]
  have "polygons st1 = polygons st" "dataSources st1 = dataSources st" by simp_all
  with 3[OF f[symmetric]] f show ?case by (auto split: prod.splits)
qed

lemma getColorForValue_dataSources:
  "dataSources st' = dataSources st \<Longrightarrow> getColorForValue st' = getColorForValue st"
  by (simp add: fun_eq_iff getColorForValue_def getDataSourceById_def)

lemma applyResult_reads:
  "dataSources (applyResult snap now st res) = dataSources st"
  by (simp add: applyResult_def updatePolygon_def Let_def split: option.splits)

lemma applyResults_dataSources:
  "dataSources (applyResults snap now st results) = dataSources st"
  unfolding applyResults_def
  by (induction results arbitrary: st) (simp_all add: applyResult_reads)

lemma applyResult_polygon:
  assumes "p \<in> set (polygons (applyResult snap now st res))"
  shows "\<exists>p0 \<in> set (polygons st). pid p0 = pid p \<and>
           (if pid p0 = polygonId res
            then (case find (\<lambda>q. pid q = polygonId res) snap of
                    None \<Rightarrow> p = p0
                  | Some q \<Rightarrow>
                      p = p0\<lparr>data := Number (res_value res),
                             pcolor := Some (getColorForValue st (dataSource q) (Number (res_value res))),
                             lastUpdated := Some now, perror := res_error res\<rparr>)
            else p = p0)"
proof (cases "find (\<lambda>q. pid q = polygonId res) snap")
  case None
  with assms have "p \<in> set (polygons st)" by (simp add: applyResult_def)
  with None show ?thesis by (intro bexI[of _ p]) simp_all
next
  case (Some q)
  let ?f = "\<lambda>p0. if pid p0 = polygonId res
      then p0\<lparr>data := Number (res_value res),
             pcolor := Some (getColorForValue st (dataSource q) (Number (res_value res))),
             lastUpdated := Some now, perror := res_error res\<rparr>
      else p0"
  from assms Some have "p \<in> ?f ` set (polygons st)"
    by (simp add: applyResult_def updatePolygon_def Let_def)
  then obtain p0 where "p0 \<in> set (polygons st)" "p = ?f p0" by blast
  with Some show ?thesis by (intro bexI[of _ p0]) (simp_all split: if_splits)
qed

lemma applyResults_last_write:
  assumes "distinct (map polygonId results)" and "res \<in> set results"
    and "find (\<lambda>q. pid q = polygonId res) snap = Some q"
    and "p \<in> set (polygons (applyResults snap now st results))"
    and "pid p = polygonId res"
  shows "data p = Number (res_value res)
         \<and> pcolor p = Some (getColorForValue st (dataSource q) (Number (res_value res)))
         \<and> lastUpdated p = Some now \<and> perror p = res_error res"
  using assms
proof (induction results arbitrary: p rule: rev_induct)
  case Nil
  then show ?case by simp
next
  case (snoc r rs)
  let ?st' = "applyResults snap now st rs"
  have step: "applyResults snap now st (rs @ [r]) = applyResult snap now ?st' r"
    by (simp add: applyResults_def)
  from snoc.prems(4) step obtain p0 where p0: "p0 \<in> set (polygons ?st')" "pid p0 = pid p"
    and upd: "if pid p0 = polygonId r
            then (case find (\<lambda>q. pid q = polygonId r) snap of
                    None \<Rightarrow> p = p0
                  | Some q \<Rightarrow>
                      p = p0\<lparr>data := Number (res_value r),
                             pcolor := Some (getColorForValue ?st' (dataSource q) (Number (res_value r))),
                             lastUpdated := Some now, perror := res_error r\<rparr>)
            else p = p0"
    using applyResult_polygon[of p snap now ?st' r] by auto
  have col: "getColorForValue ?st' = getColorForValue st"
    by (rule getColorForValue_dataSources) (rule applyResults_dataSources)
  show ?case
  proof (cases "res = r")
    case True
    with upd p0 snoc.prems(3,5) show ?thesis by (simp add: col)
  next
    case False
    with snoc.prems(1,2) have mem: "res \<in> set rs" and ne: "polygonId r \<noteq> polygonId res"
      by auto
    from upd p0 ne snoc.prems(5) have "p = p0" by simp
    with p0 have inside: "p \<in> set (polygons ?st')" by simp
    from snoc.prems(1) have d: "distinct (map polygonId rs)" by simp
    show ?thesis by (rule snoc.IH[OF d mem snoc.prems(3) inside snoc.prems(5)])
  qed
qed

text \<open>
  C2 (as the code has it).  A refresh carries no generation tag: when its fetches have
  resolved, \<open>refreshAllPolygonData\<close> writes the value, colour, time and error of each of
  its results onto the regions of that identifier, whatever a later call has written there
  before.  The final value of a region is that of the call that finished last.
\<close>

theorem refreshFinish_applies_results:
  assumes "distinct (map polygonId (fst (resumeAll st now draw net (progress call))))"
    and "res \<in> set (fst (resumeAll st now draw net (progress call)))"
    and "find (\<lambda>q. pid q = polygonId res) (snapshot call) = Some q"
    and "p \<in> set (polygons (refreshFinish st now draw net call))"
    and "pid p = polygonId res"
  shows "data p = Number (res_value res)
         \<and> pcolor p = Some (getColorForValue st (dataSource q) (Number (res_value res)))
         \<and> lastUpdated p = Some now \<and> perror p = res_error res"
proof -
  obtain results st1 where r: "resumeAll st now draw net (progress call) = (results, st1)"
    by (cases "resumeAll st now draw net (progress call)")
  with resumeAll_reads[of st now draw net "progress call"]
  have same: "dataSources st1 = dataSources st" by simp
  from r assms(4) have inside: "p \<in> set (polygons (applyResults (snapshot call) now st1 results))"
    by (simp add: refreshFinish_def)
  from r assms(1,2) have d: "distinct (map polygonId results)" and m: "res \<in> set results"
    by simp_all
  from applyResults_last_write[OF d m assms(3) inside assms(5)]
  show ?thesis by (simp add: getColorForValue_dataSources[OF same])
qed

theorem refreshFinish_applies_results_witness:
  "data (hd (polygons refreshedStore)) = Number (Num 25)
   \<and> data (hd (polygons (refreshFinish refreshedStore 4000 (\<lambda>ident. 0) failingNet staleCall)))
       = Number (Num 15)"
proof -
  let ?res = "\<lparr>polygonId = ''p1'', res_value = Num 15, res_error = None\<rparr>"
  let ?p = "hd (polygons (refreshFinish refreshedStore 4000 (\<lambda>ident. 0) failingNet staleCall))"
  have results: "fst (resumeAll refreshedStore 4000 (\<lambda>ident. 0) failingNet (progress staleCall))
      = [?res]"
    by (simp add: staleCall_def)
  have h1: "distinct (map polygonId
      (fst (resumeAll refreshedStore 4000 (\<lambda>ident. 0) failingNet (progress staleCall))))"
    unfolding results by simp
  have h2: "?res \<in> set (fst (resumeAll refreshedStore 4000 (\<lambda>ident. 0) failingNet
      (progress staleCall)))"
    unfolding results by simp
  have h3: "find (\<lambda>q. pid q = polygonId ?res) (snapshot staleCall) = Some examplePolygon"
    by (simp add: staleCall_def examplePolygon_def)
  have polys: "map pid (polygons (refreshFinish refreshedStore 4000 (\<lambda>ident. 0) failingNet
      staleCall)) = [''p1'']"
    by (simp add: refreshFinish_def staleCall_def applyResults_def applyResult_def
        updatePolygon_def refreshedStore_def examplePolygon_def Let_def)
  then have ne: "polygons (refreshFinish refreshedStore 4000 (\<lambda>ident. 0) failingNet staleCall) \<noteq> []"
    by auto
  then have h4: "?p \<in> set (polygons (refreshFinish refreshedStore 4000 (\<lambda>ident. 0) failingNet
      staleCall))"
    by simp
  from polys ne have h5: "pid ?p = polygonId ?res"
    by (cases "polygons (refreshFinish refreshedStore 4000 (\<lambda>ident. 0) failingNet staleCall)")
       simp_all
  have before: "data (hd (polygons refreshedStore)) = Number (Num 25)"
    by (simp add: refreshedStore_def)
  from refreshFinish_applies_results[OF h1 h2 h3 h4 h5] before
  show ?thesis by simp
qed

text \<open>Two regions, the series of the first in the cache.  The refresh is invoked at the
  instant 0, the instant moves one hour on and the refresh is invoked again; the responses
  of the second call arrive first.  After the second call both regions hold 25, the mean
  over the second window; when the response of the first call arrives, the first region
  is set to 15, the mean over the first window.\<close>

theorem stale_refresh_counterexample:
  "map_option (\<lambda>(s4, s5). (map data (polygons s4), map data (polygons s5)))
     (refreshTwice twoRegionStore 3600000 (\<lambda>ident. 0) (answeringNet exampleSeries))
   = Some ([Number (Num 25), Number (Num 25)], [Number (Num 15), Number (Num 25)])"
  by (simp add: refreshTwice_def twoRegionStore_def regionA_def regionB_def initialStore_def
      refreshBegin_def polygonBegin_def fetchBegin_def getCachedWeatherData_def
      buildApiUrl_def getDataSourceById_def initialDataSources_def fieldMapping_def
      average_def calculateCurrentValue_def getTimeWindow_def addHours_def valueAt_def
      exampleSeries_def round1_def fl_small catchMock_def resultOf_def
      setCurrentTime_def refreshFinish_def fetchResume_def answeringNet_def
      cacheWeatherData_def applyResults_def applyResult_def updatePolygon_def
      getColorForValue_def matchesRule_def simpleRule_def compoundRule_def Let_def)

end
